theory Spec2Isabelle
  imports Main
begin

section \<open>Python values, exceptions and the error monad\<close>

text \<open>
  The converter (\<^verbatim>\<open>v2ray_converter.py\<close>) parses a JSON text, looks the protocol up in a
  table of handlers, validates the parsed dictionary against a pydantic model
  (\<^verbatim>\<open>validators_Version2.py\<close>) and builds a URI string.

  A Python \<^verbatim>\<open>str\<close> is modelled as a \<^typ>\<open>string\<close> whose characters are the code points
  \<open>0 .. 255\<close>; \<^verbatim>\<open>len\<close> is \<^const>\<open>length\<close>, and the UTF-8 encoding of a code point above
  127 takes two bytes. A value produced by \<^verbatim>\<open>json.loads\<close> is a \<open>json\<close>: a dictionary is the
  list of its items (its keys are distinct) and is read through \<^const>\<open>map_of\<close>. JSON
  numbers with a fraction or an exponent (Python floats) are not represented.
\<close>

datatype json =
    JNull
  | JBool bool
  | JInt int
  | JStr string
  | JArr "json list"
  | JObj "(string \<times> json) list"

text \<open>The values a validated model holds in its fields: \<^verbatim>\<open>None\<close>, an \<^verbatim>\<open>int\<close> or a \<^verbatim>\<open>str\<close>.\<close>

datatype pyval = PNone | PInt int | PStr string

text \<open>
  The exceptions of the program. A pydantic \<^verbatim>\<open>ValidationError\<close> carries the model's class
  name and one entry \<open>(loc, msg, type)\<close> for every field that failed.
\<close>

datatype exn =
    ValueError string
  | AttributeError string
  | TypeError string
  | ValidationError string "(string \<times> string \<times> string) list"

definition bind :: "exn + 'a \<Rightarrow> ('a \<Rightarrow> exn + 'b) \<Rightarrow> exn + 'b" where
  "bind m f = (case m of Inl e \<Rightarrow> Inl e | Inr x \<Rightarrow> f x)"

section \<open>Strings: the built-ins the program calls\<close>

definition nl :: string where
  "nl = [CHR 0x0A]"

definition sq :: string where
  "sq = [CHR 0x27]"

definition dq :: string where
  "dq = [CHR 0x22]"

definition bs :: string where
  "bs = [CHR 0x5C]"

text \<open>\<^verbatim>\<open>sep.join(xs)\<close>.\<close>

fun join :: "string \<Rightarrow> string list \<Rightarrow> string" where
  "join sep [] = []"
| "join sep [x] = x"
| "join sep (x # y # ys) = x @ sep @ join sep (y # ys)"

text \<open>\<^verbatim>\<open>str(n)\<close> for an \<^verbatim>\<open>int\<close>.\<close>

definition digit_char :: "nat \<Rightarrow> char" where
  "digit_char n = ''0123456789'' ! (n mod 10)"

fun str_nat :: "nat \<Rightarrow> string" where
  "str_nat n = (if n < 10 then [digit_char n] else str_nat (n div 10) @ [digit_char n])"

declare str_nat.simps [simp del]

definition str_int :: "int \<Rightarrow> string" where
  "str_int i = (if i < 0 then CHR ''-'' # str_nat (nat (- i)) else str_nat (nat i))"

text \<open>\<^verbatim>\<open>str(v)\<close>, as an f-string and \<^verbatim>\<open>urlencode\<close> apply it.\<close>

fun py_str :: "pyval \<Rightarrow> string" where
  "py_str PNone = ''None''"
| "py_str (PInt i) = str_int i"
| "py_str (PStr s) = s"

text \<open>Truthiness, and \<^verbatim>\<open>a or b\<close>.\<close>

fun truthy :: "pyval \<Rightarrow> bool" where
  "truthy PNone = False"
| "truthy (PInt i) = (i \<noteq> 0)"
| "truthy (PStr s) = (s \<noteq> [])"

definition py_or :: "pyval \<Rightarrow> pyval \<Rightarrow> pyval" where
  "py_or a b = (if truthy a then a else b)"

text \<open>\<^verbatim>\<open>str.lower\<close> on the code points \<open>0 .. 255\<close>: A-Z, and the upper-case letters of Latin-1.\<close>

definition is_upper :: "char \<Rightarrow> bool" where
  "is_upper c = (let n = (of_char c :: nat) in
     (65 \<le> n \<and> n \<le> 90) \<or> (192 \<le> n \<and> n \<le> 222 \<and> n \<noteq> 215))"

definition lower_char :: "char \<Rightarrow> char" where
  "lower_char c = (if is_upper c then char_of ((of_char c :: nat) + 32) else c)"

definition lower :: "string \<Rightarrow> string" where
  "lower s = map lower_char s"

text \<open>\<^verbatim>\<open>s.replace(old, '')\<close> for a non-empty \<^verbatim>\<open>old\<close>, and \<^verbatim>\<open>s.strip(chars)\<close>.\<close>

function str_remove :: "string \<Rightarrow> string \<Rightarrow> string" where
  "str_remove old [] = []"
| "str_remove old (c # cs) =
     (if old \<noteq> [] \<and> take (length old) (c # cs) = old
      then str_remove old (drop (length old) (c # cs))
      else c # str_remove old cs)"
  by pat_completeness auto
termination
  by (relation "measure (\<lambda>(old, s). length s)") auto

declare str_remove.simps [simp del]

definition strip :: "string \<Rightarrow> string \<Rightarrow> string" where
  "strip chars s =
     rev (dropWhile (\<lambda>c. c \<in> set chars) (rev (dropWhile (\<lambda>c. c \<in> set chars) s)))"

text \<open>
  \<^verbatim>\<open>int(s, base)\<close> for a \<^verbatim>\<open>str\<close> and base 10 or 16, \<open>None\<close> where Python raises
  \<^verbatim>\<open>ValueError\<close>: white space around the literal is skipped, a sign and (in base 16) a
  prefix \<^verbatim>\<open>0x\<close> are allowed, single underscores may separate digits. Integers are
  unbounded; the limit that recent Python versions put on the number of digits of a decimal
  literal is not modelled.
\<close>

definition py_isspace :: "char \<Rightarrow> bool" where
  "py_isspace c = (let n = (of_char c :: nat) in
     (9 \<le> n \<and> n \<le> 13) \<or> n = 32 \<or> n = 133 \<or> n = 160)"

definition digit_value :: "char \<Rightarrow> nat" where
  "digit_value c = (let n = (of_char c :: nat) in
     if 48 \<le> n \<and> n \<le> 57 then n - 48
     else if 97 \<le> n \<and> n \<le> 122 then n - 87
     else if 65 \<le> n \<and> n \<le> 90 then n - 55
     else 37)"

definition is_digit_or_us :: "nat \<Rightarrow> char \<Rightarrow> bool" where
  "is_digit_or_us base c = (digit_value c < base \<or> c = CHR ''_'')"

fun underscores_ok :: "string \<Rightarrow> bool" where
  "underscores_ok [] = True"
| "underscores_ok [c] = (c \<noteq> CHR ''_'')"
| "underscores_ok (c # d # cs) =
     (\<not> (c = CHR ''_'' \<and> d = CHR ''_'') \<and> underscores_ok (d # cs))"

definition digits_value :: "nat \<Rightarrow> string \<Rightarrow> int" where
  "digits_value base ds =
     foldl (\<lambda>acc c. acc * int base + int (digit_value c)) 0
       (filter (\<lambda>c. c \<noteq> CHR ''_'') ds)"

definition skip_prefix :: "nat \<Rightarrow> string \<Rightarrow> string" where
  "skip_prefix base s =
     (if base = 16 \<and> (take 2 s = ''0x'' \<or> take 2 s = ''0X'')
      then (if take 1 (drop 2 s) = ''_'' then drop 3 s else drop 2 s)
      else s)"

definition py_int :: "string \<Rightarrow> nat \<Rightarrow> int option" where
  "py_int s base =
     (let s1 = dropWhile py_isspace s;
          neg = (take 1 s1 = ''-'');
          s2 = (if take 1 s1 = ''+'' \<or> take 1 s1 = ''-'' then drop 1 s1 else s1);
          s3 = skip_prefix base s2;
          body = takeWhile (is_digit_or_us base) s3;
          rest = dropWhile (is_digit_or_us base) s3
      in if take 1 s3 = ''_'' \<or> \<not> underscores_ok body \<or> body = []
            \<or> dropWhile py_isspace rest \<noteq> []
         then None
         else Some (if neg then - digits_value base body else digits_value base body))"

section \<open>The library encoders: \<^verbatim>\<open>urllib.parse\<close>, \<^verbatim>\<open>base64\<close>, \<^verbatim>\<open>json.dumps\<close>\<close>

text \<open>\<^verbatim>\<open>s.encode()\<close>: the UTF-8 bytes of a string, as numbers.\<close>

definition utf8 :: "string \<Rightarrow> nat list" where
  "utf8 s = concat (map (\<lambda>c. let n = (of_char c :: nat) in
     if n < 128 then [n] else [192 + n div 64, 128 + n mod 64]) s)"

definition always_safe :: "nat \<Rightarrow> bool" where
  "always_safe b = ((65 \<le> b \<and> b \<le> 90) \<or> (97 \<le> b \<and> b \<le> 122) \<or> (48 \<le> b \<and> b \<le> 57)
     \<or> b = 95 \<or> b = 46 \<or> b = 45 \<or> b = 126)"

definition hex_upper :: "nat \<Rightarrow> char" where
  "hex_upper n = ''0123456789ABCDEF'' ! (n mod 16)"

definition hex_lower :: "nat \<Rightarrow> char" where
  "hex_lower n = ''0123456789abcdef'' ! (n mod 16)"

text \<open>\<^verbatim>\<open>quote_from_bytes\<close>: a byte is kept when it is always safe or in \<^verbatim>\<open>safe\<close>, and
  written \<^verbatim>\<open>%XX\<close> otherwise.\<close>

definition quote_byte :: "string \<Rightarrow> nat \<Rightarrow> string" where
  "quote_byte safe b =
     (if always_safe b \<or> (b < 128 \<and> b \<in> of_char ` set safe) then [char_of b]
      else [CHR ''%'', hex_upper (b div 16), hex_upper b])"

definition quote_from_bytes :: "nat list \<Rightarrow> string \<Rightarrow> string" where
  "quote_from_bytes bytes safe = concat (map (quote_byte safe) bytes)"

definition quote_safe :: "string \<Rightarrow> string \<Rightarrow> string" where
  "quote_safe s safe = (if s = [] then s else quote_from_bytes (utf8 s) safe)"

text \<open>\<^verbatim>\<open>quote(s)\<close> with its default \<^verbatim>\<open>safe='/'\<close>.\<close>

definition quote :: "string \<Rightarrow> string" where
  "quote s = quote_safe s ''/''"

text \<open>\<^verbatim>\<open>quote\<close> applied to a field of a model: a value that is not a \<^verbatim>\<open>str\<close> reaches
  \<^verbatim>\<open>quote_from_bytes\<close>, which raises.\<close>

fun quote_val :: "pyval \<Rightarrow> exn + string" where
  "quote_val (PStr s) = Inr (quote s)"
| "quote_val v = Inl (TypeError ''quote_from_bytes() expected bytes'')"

definition quote_plus :: "string \<Rightarrow> string" where
  "quote_plus s =
     (if CHR '' '' \<notin> set s then quote_safe s []
      else map (\<lambda>c. if c = CHR '' '' then CHR ''+'' else c) (quote_safe s '' ''))"

text \<open>\<^verbatim>\<open>urlencode(params)\<close> for a dictionary, in the order of its items.\<close>

definition urlencode :: "(string \<times> pyval) list \<Rightarrow> string" where
  "urlencode params =
     join ''&'' (map (\<lambda>(k, v). quote_plus k @ ''='' @ quote_plus (py_str v)) params)"

text \<open>\<^verbatim>\<open>d[k] = v\<close> on a dictionary kept as the list of its items.\<close>

fun dict_set :: "(string \<times> 'v) list \<Rightarrow> string \<Rightarrow> 'v \<Rightarrow> (string \<times> 'v) list" where
  "dict_set [] k v = [(k, v)]"
| "dict_set ((k', v') # d) k v = (if k' = k then (k, v) # d else (k', v') # dict_set d k v)"

text \<open>\<^verbatim>\<open>base64.b64encode\<close>.\<close>

definition b64_char :: "nat \<Rightarrow> char" where
  "b64_char n =
     ''ABCDEFGHIJKLMNOPQRSTUVWXYZabcdefghijklmnopqrstuvwxyz0123456789+/'' ! (n mod 64)"

fun b64encode :: "nat list \<Rightarrow> string" where
  "b64encode [] = []"
| "b64encode [a] = [b64_char (a div 4), b64_char ((a mod 4) * 16), CHR ''='', CHR ''='']"
| "b64encode [a, b] =
     [b64_char (a div 4), b64_char ((a mod 4) * 16 + b div 16), b64_char ((b mod 16) * 4),
      CHR ''='']"
| "b64encode (a # b # c # rest) =
     [b64_char (a div 4), b64_char ((a mod 4) * 16 + b div 16),
      b64_char ((b mod 16) * 4 + c div 64), b64_char (c mod 64)] @ b64encode rest"

text \<open>\<^verbatim>\<open>json.dumps(obj, separators=(',', ':'))\<close> for a dictionary of strings, integers and
  \<^verbatim>\<open>None\<close>; \<^verbatim>\<open>ensure_ascii\<close> is left at its default, so every character outside
  \<^verbatim>\<open>' ' .. '~'\<close> is escaped.\<close>

definition json_escape_char :: "char \<Rightarrow> string" where
  "json_escape_char c = (let n = (of_char c :: nat) in
     if c = CHR 0x22 then bs @ dq
     else if c = CHR 0x5C then bs @ bs
     else if n = 8 then bs @ ''b''
     else if n = 12 then bs @ ''f''
     else if n = 10 then bs @ ''n''
     else if n = 13 then bs @ ''r''
     else if n = 9 then bs @ ''t''
     else if 32 \<le> n \<and> n \<le> 126 then [c]
     else bs @ ''u00'' @ [hex_lower (n div 16), hex_lower n])"

definition json_string :: "string \<Rightarrow> string" where
  "json_string s = dq @ concat (map json_escape_char s) @ dq"

fun json_dumps_val :: "pyval \<Rightarrow> string" where
  "json_dumps_val PNone = ''null''"
| "json_dumps_val (PInt i) = str_int i"
| "json_dumps_val (PStr s) = json_string s"

definition json_dumps :: "(string \<times> pyval) list \<Rightarrow> string" where
  "json_dumps obj =
     ''{'' @ join '','' (map (\<lambda>(k, v). json_string k @ '':'' @ json_dumps_val v) obj) @ ''}''"

section \<open>pydantic models\<close>

text \<open>
  The schemas are written against the pydantic 1 interface (\<^verbatim>\<open>validator\<close>, \<^verbatim>\<open>class Config\<close>
  with \<^verbatim>\<open>allow_population_by_field_name\<close>). A model class is the list of its fields in
  declaration order. Every field has a name, an alias (the name itself where none is
  declared), a type with the class validator attached to it, whether \<^verbatim>\<open>None\<close> is allowed
  (\<^verbatim>\<open>Optional\<close>), whether it is required, and a default.
\<close>

datatype fkind =
    StrField "string \<Rightarrow> string + string"
  | IntField "int \<Rightarrow> string + int"

datatype field =
  Field (fname: string) (falias: string) (fkind: fkind) (allow_none: bool) (frequired: bool)
    (fdefault: pyval)

definition req :: "string \<Rightarrow> string \<Rightarrow> fkind \<Rightarrow> field" where
  "req name alias kind = Field name alias kind False True PNone"

definition opt :: "string \<Rightarrow> string \<Rightarrow> fkind \<Rightarrow> bool \<Rightarrow> pyval \<Rightarrow> field" where
  "opt name alias kind none_ok dflt = Field name alias kind none_ok False dflt"

definition no_validator :: "'a \<Rightarrow> string + 'a" where
  "no_validator v = Inr v"

text \<open>
  The type validators of pydantic 1. \<^verbatim>\<open>str_validator\<close> keeps a \<^verbatim>\<open>str\<close> and applies \<^verbatim>\<open>str\<close>
  to an \<^verbatim>\<open>int\<close> (a \<^verbatim>\<open>bool\<close> is one); \<^verbatim>\<open>int_validator\<close> keeps an \<^verbatim>\<open>int\<close> and applies
  \<^verbatim>\<open>int\<close> to everything else. An error is the pair of its message and its type.
\<close>

fun str_validator :: "json \<Rightarrow> (string \<times> string) + string" where
  "str_validator (JStr s) = Inr s"
| "str_validator (JInt i) = Inr (str_int i)"
| "str_validator (JBool b) = Inr (if b then ''True'' else ''False'')"
| "str_validator v = Inl (''str type expected'', ''type_error.str'')"

fun int_validator :: "json \<Rightarrow> (string \<times> string) + int" where
  "int_validator (JInt i) = Inr i"
| "int_validator (JBool b) = Inr (if b then 1 else 0)"
| "int_validator (JStr s) =
     (case py_int s 10 of
        Some i \<Rightarrow> Inr i
      | None \<Rightarrow> Inl (''value is not a valid integer'', ''type_error.integer''))"
| "int_validator v = Inl (''value is not a valid integer'', ''type_error.integer'')"

text \<open>A class validator that raises \<^verbatim>\<open>ValueError(msg)\<close> gives an error of type
  \<^verbatim>\<open>value_error\<close> with that message.\<close>

definition class_validator :: "('a \<Rightarrow> string + 'a) \<Rightarrow> 'a \<Rightarrow> (string \<times> string) + 'a" where
  "class_validator val v =
     (case val v of Inl msg \<Rightarrow> Inl (msg, ''value_error'') | Inr v' \<Rightarrow> Inr v')"

text \<open>\<^verbatim>\<open>ModelField.validate\<close>: \<^verbatim>\<open>None\<close> first, then the type, then the class validator.\<close>

definition validate_value :: "field \<Rightarrow> json \<Rightarrow> (string \<times> string) + pyval" where
  "validate_value f v =
     (if v = JNull then
        (if allow_none f then Inr PNone
         else Inl (''none is not an allowed value'', ''type_error.none.not_allowed''))
      else
        (case fkind f of
           StrField val \<Rightarrow>
             (case str_validator v of
                Inl e \<Rightarrow> Inl e
              | Inr s \<Rightarrow>
                  (case class_validator val s of Inl e \<Rightarrow> Inl e | Inr s' \<Rightarrow> Inr (PStr s')))
         | IntField val \<Rightarrow>
             (case int_validator v of
                Inl e \<Rightarrow> Inl e
              | Inr i \<Rightarrow>
                  (case class_validator val i of Inl e \<Rightarrow> Inl e | Inr i' \<Rightarrow> Inr (PInt i')))))"

text \<open>
  \<^verbatim>\<open>validate_model\<close>: every field is looked up under its alias and then, since the models
  allow population by field name, under its name. A required field that is absent gives
  the error \<^verbatim>\<open>field required\<close>; an absent optional field takes its default unvalidated.
  An error is located at the alias. Keys of the input that belong to no field are ignored
  (\<^verbatim>\<open>Extra.ignore\<close>, the default). All fields are visited, and the errors of all of them
  are collected.
\<close>

definition field_input :: "field \<Rightarrow> (string \<rightharpoonup> json) \<Rightarrow> json option" where
  "field_input f input_data =
     (case input_data (falias f) of Some v \<Rightarrow> Some v | None \<Rightarrow> input_data (fname f))"

definition field_result :: "field \<Rightarrow> (string \<rightharpoonup> json) \<Rightarrow> (string \<times> string \<times> string) + pyval"
  where
  "field_result f input_data =
     (case field_input f input_data of
        None \<Rightarrow>
          (if frequired f then Inl (falias f, ''field required'', ''value_error.missing'')
           else Inr (fdefault f))
      | Some v \<Rightarrow>
          (case validate_value f v of
             Inl (msg, ty) \<Rightarrow> Inl (falias f, msg, ty)
           | Inr pv \<Rightarrow> Inr pv))"

fun validate_fields ::
  "field list \<Rightarrow> (string \<rightharpoonup> json) \<Rightarrow> (string \<times> pyval) list \<times> (string \<times> string \<times> string) list"
  where
  "validate_fields [] input_data = ([], [])"
| "validate_fields (f # fs) input_data =
     (case validate_fields fs input_data of
        (values, errors) \<Rightarrow>
          (case field_result f input_data of
             Inl e \<Rightarrow> (values, e # errors)
           | Inr pv \<Rightarrow> ((fname f, pv) # values, errors)))"

text \<open>An instance of a model: its class name and the dictionary of its field values.\<close>

type_synonym pyobj = "string \<times> (string \<times> pyval) list"

definition BaseModel_init :: "string \<Rightarrow> field list \<Rightarrow> (string \<rightharpoonup> json) \<Rightarrow> exn + pyobj" where
  "BaseModel_init cls fields input_data =
     (case validate_fields fields input_data of
        (values, errors) \<Rightarrow>
          (if errors = [] then Inr (cls, values) else Inl (ValidationError cls errors)))"

text \<open>
  A handler instantiates its model with the dictionary expanded into keyword arguments,
  \<^verbatim>\<open>Config(**config)\<close>. pydantic 1 declares
  \<^verbatim>\<open>BaseModel.__init__(__pydantic_self__, **data)\<close>, so a dictionary that has the key
  \<^verbatim>\<open>__pydantic_self__\<close> gives the first parameter a second value: the call raises
  \<^verbatim>\<open>TypeError\<close> before anything is validated. Every other dictionary is passed on as
  \<^verbatim>\<open>data\<close>. The wording of the message is the interpreter's and differs between builds;
  no statement below depends on it.
\<close>

definition init_clash_message :: string where
  "init_clash_message =
     ''__init__() got multiple values for keyword argument '' @ sq @ ''__pydantic_self__'' @ sq"

definition instantiate :: "string \<Rightarrow> field list \<Rightarrow> (string \<rightharpoonup> json) \<Rightarrow> exn + pyobj" where
  "instantiate cls fields config =
     (if config ''__pydantic_self__'' \<noteq> None then Inl (TypeError init_clash_message)
      else BaseModel_init cls fields config)"

text \<open>Reading an attribute: a name that is no field of the model raises.\<close>

definition getattr :: "pyobj \<Rightarrow> string \<Rightarrow> exn + pyval" where
  "getattr obj name =
     (case map_of (snd obj) name of
        Some v \<Rightarrow> Inr v
      | None \<Rightarrow>
          Inl (AttributeError
                 (sq @ fst obj @ sq @ '' object has no attribute '' @ sq @ name @ sq)))"

text \<open>\<^verbatim>\<open>str(e)\<close> for an exception; a \<^verbatim>\<open>ValidationError\<close> prints its entries one after the
  other.\<close>

definition display_error :: "string \<times> string \<times> string \<Rightarrow> string" where
  "display_error e =
     (case e of (loc, msg, ty) \<Rightarrow> loc @ nl @ ''  '' @ msg @ '' (type='' @ ty @ '')'')"

fun str_exn :: "exn \<Rightarrow> string" where
  "str_exn (ValueError msg) = msg"
| "str_exn (AttributeError msg) = msg"
| "str_exn (TypeError msg) = msg"
| "str_exn (ValidationError cls errors) =
     str_nat (length errors) @ '' validation error''
       @ (if length errors = 1 then [] else ''s'') @ '' for '' @ cls @ nl
       @ join nl (map display_error errors)"

section \<open>The schemas of \<^verbatim>\<open>validators_Version2.py\<close>\<close>

text \<open>
  The class validators. Each class declares its own \<^verbatim>\<open>validate_port\<close> (six copies),
  \<^verbatim>\<open>validate_uuid\<close> (two) and \<^verbatim>\<open>validate_password\<close> (three); the copies are the same text.
\<close>

text \<open>\<^verbatim>\<open>uuid.UUID(hex)\<close>: \<open>None\<close> where it raises \<^verbatim>\<open>ValueError\<close>.\<close>

definition uuid_hex :: "string \<Rightarrow> string" where
  "uuid_hex v = str_remove ''-'' (strip ''{}'' (str_remove ''uuid:'' (str_remove ''urn:'' v)))"

definition uuid_UUID :: "string \<Rightarrow> int option" where
  "uuid_UUID v =
     (let hex = uuid_hex v
      in if length hex \<noteq> 32 then None
         else (case py_int hex 16 of
                 None \<Rightarrow> None
               | Some i \<Rightarrow> (if 0 \<le> i \<and> i < 2 ^ 128 then Some i else None)))"

definition validate_uuid :: "string \<Rightarrow> string + string" where
  "validate_uuid v =
     (case uuid_UUID v of
        Some u \<Rightarrow> Inr v
      | None \<Rightarrow> Inl (''Invalid UUID format: '' @ v))"

definition validate_port :: "int \<Rightarrow> string + int" where
  "validate_port v =
     (if \<not> (1 \<le> v \<and> v \<le> 65535)
      then Inl (''Port must be between 1 and 65535, got '' @ str_int v)
      else Inr v)"

definition validate_aid :: "int \<Rightarrow> string + int" where
  "validate_aid v =
     (if \<not> (0 \<le> v \<and> v \<le> 65535)
      then Inl (''AlterId must be between 0 and 65535, got '' @ str_int v)
      else Inr v)"

definition validate_password :: "string \<Rightarrow> string + string" where
  "validate_password v =
     (if length v < 4 then Inl ''Password must be at least 4 characters'' else Inr v)"

definition valid_methods :: "string list" where
  "valid_methods =
     [''aes-128-gcm'', ''aes-256-gcm'', ''chacha20-poly1305'',
      ''aes-128-ctr'', ''aes-192-ctr'', ''aes-256-ctr'',
      ''aes-128-cfb'', ''aes-192-cfb'', ''aes-256-cfb'',
      ''chacha20-ietf-poly1305'']"

definition validate_method :: "string \<Rightarrow> string + string" where
  "validate_method v =
     (if v \<notin> set valid_methods
      then Inl (''Invalid method. Supported: '' @ join '', '' valid_methods)
      else Inr v)"

definition VLESSConfig_fields :: "field list" where
  "VLESSConfig_fields =
     [req ''uuid'' ''id'' (StrField validate_uuid),
      req ''address'' ''address'' (StrField no_validator),
      req ''port'' ''port'' (IntField validate_port),
      opt ''protocol'' ''protocol'' (StrField no_validator) False (PStr ''vless''),
      opt ''encryption'' ''encryption'' (StrField no_validator) False (PStr ''none''),
      opt ''flow'' ''flow'' (StrField no_validator) True PNone,
      opt ''tls'' ''tls'' (StrField no_validator) True PNone,
      opt ''sni'' ''sni'' (StrField no_validator) True PNone,
      opt ''alpn'' ''alpn'' (StrField no_validator) True PNone,
      opt ''network'' ''network'' (StrField no_validator) True (PStr ''tcp''),
      opt ''path'' ''path'' (StrField no_validator) True PNone,
      opt ''host'' ''host'' (StrField no_validator) True PNone,
      opt ''header_type'' ''headerType'' (StrField no_validator) True PNone]"

definition VMESSConfig_fields :: "field list" where
  "VMESSConfig_fields =
     [req ''uuid'' ''id'' (StrField validate_uuid),
      req ''address'' ''address'' (StrField no_validator),
      req ''port'' ''port'' (IntField validate_port),
      opt ''protocol'' ''protocol'' (StrField no_validator) False (PStr ''vmess''),
      opt ''aid'' ''aid'' (IntField validate_aid) False (PInt 0),
      opt ''cipher'' ''cipher'' (StrField no_validator) False (PStr ''auto''),
      opt ''tls'' ''tls'' (StrField no_validator) True PNone,
      opt ''sni'' ''sni'' (StrField no_validator) True PNone,
      opt ''network'' ''network'' (StrField no_validator) True (PStr ''tcp''),
      opt ''path'' ''path'' (StrField no_validator) True PNone,
      opt ''host'' ''host'' (StrField no_validator) True PNone]"

definition TROJANConfig_fields :: "field list" where
  "TROJANConfig_fields =
     [req ''password'' ''password'' (StrField validate_password),
      req ''address'' ''address'' (StrField no_validator),
      req ''port'' ''port'' (IntField validate_port),
      opt ''protocol'' ''protocol'' (StrField no_validator) False (PStr ''trojan''),
      opt ''tls'' ''tls'' (StrField no_validator) True (PStr ''tls''),
      opt ''sni'' ''sni'' (StrField no_validator) True PNone,
      opt ''alpn'' ''alpn'' (StrField no_validator) True PNone,
      opt ''network'' ''network'' (StrField no_validator) True (PStr ''tcp''),
      opt ''path'' ''path'' (StrField no_validator) True PNone,
      opt ''host'' ''host'' (StrField no_validator) True PNone]"

definition ShadowsocksConfig_fields :: "field list" where
  "ShadowsocksConfig_fields =
     [req ''method'' ''method'' (StrField validate_method),
      req ''password'' ''password'' (StrField validate_password),
      req ''address'' ''address'' (StrField no_validator),
      req ''port'' ''port'' (IntField validate_port),
      opt ''protocol'' ''protocol'' (StrField no_validator) False (PStr ''ss'')]"

definition Hysteria1Config_fields :: "field list" where
  "Hysteria1Config_fields =
     [opt ''protocol'' ''protocol'' (StrField no_validator) False (PStr ''hy''),
      req ''auth_string'' ''authString'' (StrField no_validator),
      req ''address'' ''address'' (StrField no_validator),
      req ''port'' ''port'' (IntField validate_port),
      opt ''tls'' ''tls'' (StrField no_validator) True (PStr ''tls''),
      opt ''sni'' ''sni'' (StrField no_validator) True PNone,
      opt ''alpn'' ''alpn'' (StrField no_validator) True (PStr ''h2''),
      opt ''protocol_string'' ''protocolString'' (StrField no_validator) True PNone]"

definition Hysteria2Config_fields :: "field list" where
  "Hysteria2Config_fields =
     [opt ''protocol'' ''protocol'' (StrField no_validator) False (PStr ''hy2''),
      req ''password'' ''password'' (StrField validate_password),
      req ''address'' ''address'' (StrField no_validator),
      req ''port'' ''port'' (IntField validate_port),
      opt ''tls'' ''tls'' (StrField no_validator) True (PStr ''tls''),
      opt ''sni'' ''sni'' (StrField no_validator) True PNone,
      opt ''alpn'' ''alpn'' (StrField no_validator) True (PStr ''h3''),
      opt ''obfs'' ''obfs'' (StrField no_validator) True PNone,
      opt ''obfs_password'' ''obfsPassword'' (StrField no_validator) True PNone]"

definition VLESSConfig :: "(string \<rightharpoonup> json) \<Rightarrow> exn + pyobj" where
  "VLESSConfig = instantiate ''VLESSConfig'' VLESSConfig_fields"

definition VMESSConfig :: "(string \<rightharpoonup> json) \<Rightarrow> exn + pyobj" where
  "VMESSConfig = instantiate ''VMESSConfig'' VMESSConfig_fields"

definition TROJANConfig :: "(string \<rightharpoonup> json) \<Rightarrow> exn + pyobj" where
  "TROJANConfig = instantiate ''TROJANConfig'' TROJANConfig_fields"

definition ShadowsocksConfig :: "(string \<rightharpoonup> json) \<Rightarrow> exn + pyobj" where
  "ShadowsocksConfig = instantiate ''ShadowsocksConfig'' ShadowsocksConfig_fields"

definition Hysteria1Config :: "(string \<rightharpoonup> json) \<Rightarrow> exn + pyobj" where
  "Hysteria1Config = instantiate ''Hysteria1Config'' Hysteria1Config_fields"

definition Hysteria2Config :: "(string \<rightharpoonup> json) \<Rightarrow> exn + pyobj" where
  "Hysteria2Config = instantiate ''Hysteria2Config'' Hysteria2Config_fields"

section \<open>The encoders of \<^verbatim>\<open>v2ray_converter.py\<close>\<close>

text \<open>
  Each handler instantiates the model from the dictionary (\<^verbatim>\<open>Config(**config)\<close>), reads its
  attributes in the order of the source and assembles the URI. The
  \<^verbatim>\<open>except Exception: ... raise\<close> around each body logs and raises the same exception
  again, so it does not show in the result. \<^verbatim>\<open>if cfg.x: params[k] = cfg.x\<close> is
  \<open>set_if\<close>.
\<close>

definition set_if :: "(string \<times> pyval) list \<Rightarrow> string \<Rightarrow> pyval \<Rightarrow> (string \<times> pyval) list" where
  "set_if params k v = (if truthy v then dict_set params k v else params)"

definition convert_vless :: "(string \<rightharpoonup> json) \<Rightarrow> string \<Rightarrow> exn + string" where
  "convert_vless config name =
     bind (VLESSConfig config) (\<lambda>vless_config.
     bind (getattr vless_config ''uuid'') (\<lambda>userinfo.
     bind (getattr vless_config ''address'') (\<lambda>address.
     bind (getattr vless_config ''port'') (\<lambda>port.
     bind (getattr vless_config ''encryption'') (\<lambda>encryption.
     bind (getattr vless_config ''network'') (\<lambda>network.
     bind (getattr vless_config ''tls'') (\<lambda>tls.
     bind (getattr vless_config ''sni'') (\<lambda>sni.
     bind (getattr vless_config ''flow'') (\<lambda>flow.
     bind (getattr vless_config ''alpn'') (\<lambda>alpn.
     bind (getattr vless_config ''path'') (\<lambda>path.
     bind (getattr vless_config ''host'') (\<lambda>host.
     bind (getattr vless_config ''header_type'') (\<lambda>header_type.
       let server = py_str address @ '':'' @ py_str port;
           params = [(''encryption'', encryption), (''type'', py_or network (PStr ''tcp''))];
           params = set_if params ''security'' tls;
           params = set_if params ''sni'' sni;
           params = set_if params ''flow'' flow;
           params = set_if params ''alpn'' alpn;
           params = set_if params ''path'' path;
           params = set_if params ''host'' host;
           params = set_if params ''headerType'' header_type;
           query_string = urlencode params
       in Inr (''vless://'' @ py_str userinfo @ ''@'' @ server @ ''?'' @ query_string
                 @ ''#'' @ quote name))))))))))))))"

definition convert_vmess :: "(string \<rightharpoonup> json) \<Rightarrow> string \<Rightarrow> exn + string" where
  "convert_vmess config name =
     bind (VMESSConfig config) (\<lambda>vmess_config.
     bind (getattr vmess_config ''address'') (\<lambda>address.
     bind (getattr vmess_config ''port'') (\<lambda>port.
     bind (getattr vmess_config ''uuid'') (\<lambda>uuid.
     bind (getattr vmess_config ''aid'') (\<lambda>aid.
     bind (getattr vmess_config ''network'') (\<lambda>network.
     bind (getattr vmess_config ''header_type'') (\<lambda>header_type.
     bind (getattr vmess_config ''tls'') (\<lambda>tls.
     bind (getattr vmess_config ''sni'') (\<lambda>sni.
     bind (getattr vmess_config ''path'') (\<lambda>path.
     bind (getattr vmess_config ''host'') (\<lambda>host.
     bind (getattr vmess_config ''cipher'') (\<lambda>cipher.
       let vmess_obj =
             [(''v'', PStr ''2''),
              (''ps'', PStr name),
              (''add'', address),
              (''port'', port),
              (''id'', uuid),
              (''aid'', aid),
              (''net'', py_or network (PStr ''tcp'')),
              (''type'', py_or header_type (PStr ''none'')),
              (''tls'', py_or tls (PStr [])),
              (''sni'', py_or sni (PStr []))];
           vmess_obj = set_if vmess_obj ''path'' path;
           vmess_obj = set_if vmess_obj ''host'' host;
           vmess_obj = set_if vmess_obj ''cipher'' cipher;
           json_str = json_dumps vmess_obj;
           encoded = b64encode (utf8 json_str)
       in Inr (''vmess://'' @ encoded)))))))))))))"

definition convert_trojan :: "(string \<rightharpoonup> json) \<Rightarrow> string \<Rightarrow> exn + string" where
  "convert_trojan config name =
     bind (TROJANConfig config) (\<lambda>trojan_config.
     bind (getattr trojan_config ''password'') (\<lambda>userinfo.
     bind (getattr trojan_config ''address'') (\<lambda>address.
     bind (getattr trojan_config ''port'') (\<lambda>port.
     bind (getattr trojan_config ''network'') (\<lambda>network.
     bind (getattr trojan_config ''tls'') (\<lambda>tls.
     bind (getattr trojan_config ''sni'') (\<lambda>sni.
     bind (getattr trojan_config ''alpn'') (\<lambda>alpn.
     bind (getattr trojan_config ''path'') (\<lambda>path.
     bind (getattr trojan_config ''host'') (\<lambda>host.
       let server = py_str address @ '':'' @ py_str port;
           params = [(''type'', py_or network (PStr ''tcp''))];
           params = set_if params ''security'' tls;
           params = set_if params ''sni'' sni;
           params = set_if params ''alpn'' alpn;
           params = set_if params ''path'' path;
           params = set_if params ''host'' host;
           query_string = urlencode params
       in Inr (''trojan://'' @ py_str userinfo @ ''@'' @ server @ ''?'' @ query_string
                 @ ''#'' @ quote name)))))))))))"

definition convert_shadowsocks :: "(string \<rightharpoonup> json) \<Rightarrow> string \<Rightarrow> exn + string" where
  "convert_shadowsocks config name =
     bind (ShadowsocksConfig config) (\<lambda>ss_config.
     bind (getattr ss_config ''method'') (\<lambda>method.
     bind (getattr ss_config ''password'') (\<lambda>password.
     bind (getattr ss_config ''address'') (\<lambda>address.
     bind (getattr ss_config ''port'') (\<lambda>port.
       let userinfo_plain = py_str method @ '':'' @ py_str password;
           userinfo = b64encode (utf8 userinfo_plain);
           server = py_str address @ '':'' @ py_str port
       in Inr (''ss://'' @ userinfo @ ''@'' @ server @ ''#'' @ quote name))))))"

definition convert_hysteria1 :: "(string \<rightharpoonup> json) \<Rightarrow> string \<Rightarrow> exn + string" where
  "convert_hysteria1 config name =
     bind (Hysteria1Config config) (\<lambda>hy_config.
     bind (getattr hy_config ''auth_string'') (\<lambda>auth_string.
     bind (quote_val auth_string) (\<lambda>userinfo.
     bind (getattr hy_config ''address'') (\<lambda>address.
     bind (getattr hy_config ''port'') (\<lambda>port.
     bind (getattr hy_config ''tls'') (\<lambda>tls.
     bind (getattr hy_config ''sni'') (\<lambda>sni.
     bind (getattr hy_config ''alpn'') (\<lambda>alpn.
     bind (getattr hy_config ''protocol_string'') (\<lambda>protocol_string.
       let server = py_str address @ '':'' @ py_str port;
           params = [];
           params = (if truthy tls then dict_set params ''tls'' (PStr ''1'') else params);
           params = set_if params ''sni'' sni;
           params = set_if params ''alpn'' alpn;
           params = set_if params ''protocol'' protocol_string;
           query_string = (if params \<noteq> [] then urlencode params else []);
           uri = ''hysteria://'' @ userinfo @ ''@'' @ server;
           uri = (if query_string \<noteq> [] then uri @ ''?'' @ query_string else uri)
       in Inr (uri @ ''#'' @ quote name))))))))))"

definition convert_hysteria2 :: "(string \<rightharpoonup> json) \<Rightarrow> string \<Rightarrow> exn + string" where
  "convert_hysteria2 config name =
     bind (Hysteria2Config config) (\<lambda>hy2_config.
     bind (getattr hy2_config ''password'') (\<lambda>password.
     bind (quote_val password) (\<lambda>userinfo.
     bind (getattr hy2_config ''address'') (\<lambda>address.
     bind (getattr hy2_config ''port'') (\<lambda>port.
     bind (getattr hy2_config ''tls'') (\<lambda>tls.
     bind (getattr hy2_config ''sni'') (\<lambda>sni.
     bind (getattr hy2_config ''alpn'') (\<lambda>alpn.
     bind (getattr hy2_config ''obfs'') (\<lambda>obfs.
     bind (getattr hy2_config ''obfs_password'') (\<lambda>obfs_password.
       let server = py_str address @ '':'' @ py_str port;
           params = [];
           params = (if truthy tls then dict_set params ''tls'' (PStr ''1'') else params);
           params = set_if params ''sni'' sni;
           params = set_if params ''alpn'' alpn;
           params = set_if params ''obfs'' obfs;
           params = set_if params ''obfs-password'' obfs_password;
           query_string = (if params \<noteq> [] then urlencode params else []);
           uri = ''hy2://'' @ userinfo @ ''@'' @ server;
           uri = (if query_string \<noteq> [] then uri @ ''?'' @ query_string else uri)
       in Inr (uri @ ''#'' @ quote name)))))))))))"

section \<open>The dispatcher: \<^verbatim>\<open>V2RayConverter.convert\<close>\<close>

definition protocol_handlers :: "(string \<times> ((string \<rightharpoonup> json) \<Rightarrow> string \<Rightarrow> exn + string)) list"
  where
  "protocol_handlers =
     [(''vless'', convert_vless),
      (''vmess'', convert_vmess),
      (''trojan'', convert_trojan),
      (''ss'', convert_shadowsocks),
      (''shadowsocks'', convert_shadowsocks),
      (''hy'', convert_hysteria1),
      (''hysteria'', convert_hysteria1),
      (''hy2'', convert_hysteria2),
      (''hysteria2'', convert_hysteria2)]"

fun type_name :: "json \<Rightarrow> string" where
  "type_name JNull = ''NoneType''"
| "type_name (JBool b) = ''bool''"
| "type_name (JInt i) = ''int''"
| "type_name (JStr s) = ''str''"
| "type_name (JArr xs) = ''list''"
| "type_name (JObj kvs) = ''dict''"

definition no_attribute :: "json \<Rightarrow> string \<Rightarrow> exn" where
  "no_attribute v name =
     AttributeError (sq @ type_name v @ sq @ '' object has no attribute '' @ sq @ name @ sq)"

text \<open>\<^verbatim>\<open>config.get(k, d)\<close> and \<^verbatim>\<open>x.lower()\<close> on a parsed value: only a dictionary has
  \<^verbatim>\<open>get\<close>, only a string has \<^verbatim>\<open>lower\<close>.\<close>

fun dict_get :: "json \<Rightarrow> string \<Rightarrow> json \<Rightarrow> exn + json" where
  "dict_get (JObj kvs) k d = Inr (case map_of kvs k of Some v \<Rightarrow> v | None \<Rightarrow> d)"
| "dict_get v k d = Inl (no_attribute v ''get'')"

fun str_lower :: "json \<Rightarrow> exn + string" where
  "str_lower (JStr s) = Inr (lower s)"
| "str_lower v = Inl (no_attribute v ''lower'')"

text \<open>The items of the dictionary as the keyword arguments of \<^verbatim>\<open>handler(config, name)\<close>
  and then of \<^verbatim>\<open>Config(**config)\<close>; what that call does with them is \<open>instantiate\<close>.\<close>

fun kwargs :: "json \<Rightarrow> (string \<rightharpoonup> json)" where
  "kwargs (JObj kvs) = map_of kvs"
| "kwargs v = Map.empty"

definition unsupported_protocol :: "string \<Rightarrow> exn" where
  "unsupported_protocol protocol =
     ValueError (''Unsupported protocol: '' @ protocol @ ''. Supported: ''
                   @ join '', '' (map fst protocol_handlers))"

text \<open>The part of \<^verbatim>\<open>convert\<close> after the parse. The attribute errors of the first line
  are raised outside every \<^verbatim>\<open>try\<close> and leave \<^verbatim>\<open>convert\<close> as they are; whatever a handler
  raises is wrapped into a \<^verbatim>\<open>ValueError\<close>.\<close>

definition convert_parsed :: "json \<Rightarrow> string \<Rightarrow> exn + string" where
  "convert_parsed config name =
     bind (dict_get config ''protocol'' (JStr [])) (\<lambda>p.
     bind (str_lower p) (\<lambda>protocol.
       (case map_of protocol_handlers protocol of
          None \<Rightarrow> Inl (unsupported_protocol protocol)
        | Some handler \<Rightarrow>
            (case handler (kwargs config) name of
               Inl e \<Rightarrow> Inl (ValueError (''Configuration validation error: '' @ str_exn e))
             | Inr uri \<Rightarrow> Inr uri))))"

text \<open>\<^verbatim>\<open>convert\<close>. The parser \<^verbatim>\<open>json.loads\<close> is a parameter: it gives the parsed value, or
  the message of its \<^verbatim>\<open>JSONDecodeError\<close>.\<close>

definition convert :: "(string \<Rightarrow> string + json) \<Rightarrow> string \<Rightarrow> string \<Rightarrow> exn + string" where
  "convert loads json_config name =
     (case loads json_config of
        Inl e \<Rightarrow> Inl (ValueError (''Invalid JSON format: '' @ e))
      | Inr config \<Rightarrow> convert_parsed config name)"

section \<open>Notions used in the statements\<close>


definition is_dec_digit :: "char \<Rightarrow> bool" where
  "is_dec_digit c = (c \<in> set ''0123456789'')"






text \<open>The model class that the handler of each protocol name instantiates.\<close>

definition handler_model :: "(string \<times> field list) list" where
  "handler_model =
     [(''vless'', VLESSConfig_fields),
      (''vmess'', VMESSConfig_fields),
      (''trojan'', TROJANConfig_fields),
      (''ss'', ShadowsocksConfig_fields),
      (''shadowsocks'', ShadowsocksConfig_fields),
      (''hy'', Hysteria1Config_fields),
      (''hysteria'', Hysteria1Config_fields),
      (''hy2'', Hysteria2Config_fields),
      (''hysteria2'', Hysteria2Config_fields)]"

text \<open>
  The query of a hysteria1 URI as the specification words it: \<^verbatim>\<open>tls=1\<close> when \<^verbatim>\<open>tls\<close> is
  truthy, then \<^verbatim>\<open>sni\<close>, \<^verbatim>\<open>alpn\<close> and \<^verbatim>\<open>protocol\<close> (from \<^verbatim>\<open>protocol_string\<close>) when
  present, that is neither \<^verbatim>\<open>None\<close> nor empty; the whole query, with its \<^verbatim>\<open>?\<close>, is left
  out when none is present.
\<close>

definition hysteria1_params :: "pyval \<Rightarrow> pyval \<Rightarrow> pyval \<Rightarrow> pyval \<Rightarrow> (string \<times> pyval) list" where
  "hysteria1_params tls sni alpn protocol_string =
     (if truthy tls then [(''tls'', PStr ''1'')] else [])
     @ (if truthy sni then [(''sni'', sni)] else [])
     @ (if truthy alpn then [(''alpn'', alpn)] else [])
     @ (if truthy protocol_string then [(''protocol'', protocol_string)] else [])"

definition hysteria1_query :: "pyval \<Rightarrow> pyval \<Rightarrow> pyval \<Rightarrow> pyval \<Rightarrow> string" where
  "hysteria1_query tls sni alpn protocol_string =
     (if \<not> truthy tls \<and> \<not> truthy sni \<and> \<not> truthy alpn \<and> \<not> truthy protocol_string then []
      else ''?'' @ urlencode (hysteria1_params tls sni alpn protocol_string))"

text \<open>
  The canonical form of a UUID as the specification words it: 8-4-4-4-12 hexadecimal digits
  of either case, separated by hyphens.
\<close>

definition is_hex :: "char \<Rightarrow> bool" where
  "is_hex c = (c \<in> set ''0123456789abcdefABCDEF'')"

definition canonical_uuid :: "string \<Rightarrow> bool" where
  "canonical_uuid s =
     (length s = 36
      \<and> list_all is_hex (take 8 s) \<and> s ! 8 = CHR ''-''
      \<and> list_all is_hex (take 4 (drop 9 s)) \<and> s ! 13 = CHR ''-''
      \<and> list_all is_hex (take 4 (drop 14 s)) \<and> s ! 18 = CHR ''-''
      \<and> list_all is_hex (take 4 (drop 19 s)) \<and> s ! 23 = CHR ''-''
      \<and> list_all is_hex (drop 24 s))"

section \<open>Basic facts\<close>

lemma bind_Inl [simp]: "bind (Inl e) f = Inl e"
  by (simp add: bind_def)

lemma bind_Inr [simp]: "bind (Inr x) f = f x"
  by (simp add: bind_def)

lemma no_handler_for_empty: "map_of protocol_handlers [] = None"
  by (simp add: protocol_handlers_def)

lemma lower_Nil: "lower [] = []"
  by (simp add: lower_def)


lemma validate_fields_cong:
  "(\<And>f. f \<in> set fs \<Longrightarrow> field_result f inp = field_result f inp') \<Longrightarrow>
   validate_fields fs inp = validate_fields fs inp'"
  by (induction fs) auto


lemma validate_fields_ok:
  "validate_fields fs inp = (vals, []) \<Longrightarrow>
   vals = map (\<lambda>f. (fname f, projr (field_result f inp))) fs
   \<and> (\<forall>f\<in>set fs. \<exists>pv. field_result f inp = Inr pv)"
  by (induction fs arbitrary: vals) (auto split: prod.splits sum.splits)

lemma BaseModel_init_Inr:
  "BaseModel_init cls fs inp = Inr obj \<Longrightarrow>
   obj = (cls, map (\<lambda>f. (fname f, projr (field_result f inp))) fs)
   \<and> (\<forall>f\<in>set fs. \<exists>pv. field_result f inp = Inr pv)"
  by (auto simp: BaseModel_init_def split: prod.splits if_splits dest: validate_fields_ok)

lemma instantiate_Inr:
  "instantiate cls fs inp = Inr obj \<Longrightarrow> BaseModel_init cls fs inp = Inr obj"
  by (simp add: instantiate_def split: if_splits)

lemma instantiate_no_clash:
  "inp ''__pydantic_self__'' = None \<Longrightarrow> instantiate cls fs inp = BaseModel_init cls fs inp"
  by (simp add: instantiate_def)

lemma instantiate_cong:
  assumes "validate_fields fs m = validate_fields fs m'"
    and "m ''__pydantic_self__'' = m' ''__pydantic_self__''"
  shows "instantiate cls fs m = instantiate cls fs m'"
  using assms by (simp add: instantiate_def BaseModel_init_def)

lemma getattr_pair:
  "getattr (cls, vals) n = (case map_of vals n of Some v \<Rightarrow> Inr v
     | None \<Rightarrow> Inl (AttributeError (sq @ cls @ sq @ '' object has no attribute '' @ sq @ n @ sq)))"
  by (simp add: getattr_def split: option.splits)

lemma fname_simps [simp]:
  "fname (req n a k) = n" "fname (opt n a k b d) = n"
  "falias (req n a k) = a" "falias (opt n a k b d) = a"
  by (simp_all add: req_def opt_def)

section \<open>Decimal strings: \<^verbatim>\<open>int(str(n))\<close>\<close>

lemma less_10_cases:
  "(d::nat) < 10 \<Longrightarrow> d = 0 \<or> d = 1 \<or> d = 2 \<or> d = 3 \<or> d = 4 \<or> d = 5 \<or> d = 6 \<or> d = 7 \<or> d = 8 \<or> d = 9"
  by arith

lemma digit_char_is_dec: "is_dec_digit (digit_char n)"
proof -
  have "n mod 10 < 10" by simp
  from less_10_cases [OF this] show ?thesis
    by (auto simp: digit_char_def is_dec_digit_def)
qed

lemma digit_value_digit_char: "digit_value (digit_char n) = n mod 10"
proof -
  have "n mod 10 < 10" by simp
  from less_10_cases [OF this] show ?thesis
    by (auto simp: digit_char_def digit_value_def)
qed

lemma dec_digit_props:
  assumes "is_dec_digit c"
  shows "digit_value c < 10" "c \<noteq> CHR ''_''" "\<not> py_isspace c" "c \<noteq> CHR ''+''" "c \<noteq> CHR ''-''"
  using assms by (auto simp: is_dec_digit_def digit_value_def py_isspace_def)

lemma str_nat_digits: "str_nat n \<noteq> [] \<and> (\<forall>c\<in>set (str_nat n). is_dec_digit c)"
proof (induction n rule: str_nat.induct)
  case (1 n)
  then show ?case
    by (subst (1 2) str_nat.simps) (auto simp: digit_char_is_dec)
qed

lemma no_underscore_ok: "CHR ''_'' \<notin> set s \<Longrightarrow> underscores_ok s"
  by (induction s rule: underscores_ok.induct) auto

lemma digits_value_snoc:
  "c \<noteq> CHR ''_'' \<Longrightarrow> digits_value b (s @ [c]) = digits_value b s * int b + int (digit_value c)"
  by (simp add: digits_value_def)

lemma digits_value_str_nat: "digits_value 10 (str_nat n) = int n"
proof (induction n rule: str_nat.induct)
  case (1 n)
  have ne: "digit_char n \<noteq> CHR ''_''"
    using dec_digit_props(2) [OF digit_char_is_dec] .
  show ?case
  proof (cases "n < 10")
    case True
    then show ?thesis
      by (subst str_nat.simps) (simp add: digits_value_def digit_value_digit_char ne)
  next
    case False
    from False 1 have "digits_value 10 (str_nat (n div 10)) = int (n div 10)" by simp
    with False show ?thesis
      by (subst str_nat.simps) (simp add: digits_value_snoc [OF ne] digit_value_digit_char, presburger)
  qed
qed

lemma py_int_digits_Cons:
  assumes "\<forall>x\<in>set (c # cs). is_dec_digit x"
  shows "py_int (c # cs) 10 = Some (digits_value 10 (c # cs))"
    and "py_int (CHR ''-'' # c # cs) 10 = Some (- digits_value 10 (c # cs))"
proof -
  have c: "is_dec_digit c" using assms by simp
  have all: "\<forall>x\<in>set (c # cs). is_digit_or_us 10 x"
    using assms by (auto simp: is_digit_or_us_def dest: dec_digit_props(1))
  have tw: "takeWhile (is_digit_or_us 10) (c # cs) = c # cs"
    using all by (simp only: takeWhile_eq_all_conv)
  have dw: "dropWhile (is_digit_or_us 10) (c # cs) = []"
    using all by (simp only: dropWhile_eq_Nil_conv)
  have us: "underscores_ok (c # cs)"
    using assms by (intro no_underscore_ok) (auto dest: dec_digit_props(2))
  have sp: "dropWhile py_isspace (c # cs) = c # cs" using dec_digit_props(3) [OF c] by simp
  have sp': "dropWhile py_isspace (CHR ''-'' # c # cs) = CHR ''-'' # c # cs"
    by (simp add: py_isspace_def)
  have sk: "skip_prefix 10 (c # cs) = c # cs" by (simp add: skip_prefix_def)
  show "py_int (c # cs) 10 = Some (digits_value 10 (c # cs))"
    unfolding py_int_def sp Let_def
    using dec_digit_props [OF c] by (simp add: sk tw dw us del: takeWhile.simps dropWhile.simps)
  show "py_int (CHR ''-'' # c # cs) 10 = Some (- digits_value 10 (c # cs))"
    unfolding py_int_def sp' Let_def
    using dec_digit_props [OF c] by (simp add: sk tw dw us del: takeWhile.simps dropWhile.simps)
qed

lemma py_int_str_int: "py_int (str_int n) 10 = Some n"
proof -
  let ?s = "str_nat (nat \<bar>n\<bar>)"
  obtain c cs where s: "?s = c # cs" using str_nat_digits [of "nat \<bar>n\<bar>"] by (cases ?s) auto
  have d: "\<forall>x\<in>set (c # cs). is_dec_digit x" using str_nat_digits [of "nat \<bar>n\<bar>"] s by simp
  have v: "digits_value 10 (c # cs) = \<bar>n\<bar>" using digits_value_str_nat [of "nat \<bar>n\<bar>"] s by simp
  show ?thesis
  proof (cases "n < 0")
    case True
    then have "str_int n = CHR ''-'' # c # cs" using s by (simp add: str_int_def abs_if)
    then show ?thesis using py_int_digits_Cons(2) [OF d] v True by simp
  next
    case False
    then have "str_int n = c # cs" using s by (simp add: str_int_def abs_if)
    then show ?thesis using py_int_digits_Cons(1) [OF d] v False by simp
  qed
qed

lemma validate_value_str_int: "validate_value f (JStr (str_int n)) = validate_value f (JInt n)"
  by (cases "fkind f") (simp_all add: validate_value_def py_int_str_int)

lemma field_result_str_int:
  "field_result f (m(k \<mapsto> JStr (str_int n))) = field_result f (m(k \<mapsto> JInt n))"
  by (auto simp: field_result_def field_input_def validate_value_str_int split: option.splits)

lemma handler_cong:
  assumes "\<And>fs. validate_fields fs m = validate_fields fs m'"
    and "(p, handler) \<in> set protocol_handlers"
    and "m ''__pydantic_self__'' = m' ''__pydantic_self__''"
  shows "handler m name = handler m' name"
proof -
  have i: "instantiate cls fs m = instantiate cls fs m'" for cls fs
    by (rule instantiate_cong [OF assms(1) assms(3)])
  from assms(2) show ?thesis
    by (auto simp: protocol_handlers_def convert_vless_def convert_vmess_def convert_trojan_def
        convert_shadowsocks_def convert_hysteria1_def convert_hysteria2_def
        VLESSConfig_def VMESSConfig_def TROJANConfig_def ShadowsocksConfig_def
        Hysteria1Config_def Hysteria2Config_def i)
qed

lemma convert_parsed_cong:
  assumes "map_of kvs ''protocol'' = map_of kvs' ''protocol''"
    and "\<And>p handler. (p, handler) \<in> set protocol_handlers \<Longrightarrow>
           handler (map_of kvs) name = handler (map_of kvs') name"
  shows "convert_parsed (JObj kvs) name = convert_parsed (JObj kvs') name"
proof -
  define p where "p = (case map_of kvs ''protocol'' of None \<Rightarrow> JStr [] | Some v \<Rightarrow> v)"
  have p: "dict_get (JObj kvs) ''protocol'' (JStr []) = Inr p"
    and p': "dict_get (JObj kvs') ''protocol'' (JStr []) = Inr p"
    by (simp_all add: p_def assms(1))
  show ?thesis
  proof (cases "str_lower p")
    case (Inl e)
    show ?thesis unfolding convert_parsed_def p p' by (simp add: Inl)
  next
    case (Inr protocol)
    show ?thesis
    proof (cases "map_of protocol_handlers protocol")
      case None
      show ?thesis unfolding convert_parsed_def p p' by (simp add: Inr None)
    next
      case (Some handler)
      from assms(2) [OF map_of_SomeD [OF Some]]
      show ?thesis unfolding convert_parsed_def p p' by (simp add: Inr Some)
    qed
  qed
qed

section \<open>The dispatcher and a missing protocol\<close>

text \<open>
  C1, as the code has it. \<^verbatim>\<open>convert\<close> reads the protocol with
  \<^verbatim>\<open>config.get("protocol", "").lower()\<close> and has a single test, membership in the table
  of handlers. For a JSON text that parses to an object whose \<^verbatim>\<open>protocol\<close> is absent or
  the empty string, \<^verbatim>\<open>convert\<close> therefore raises the very error of an unregistered
  protocol name, with the empty string as the given name; the code has no separate error
  for a missing protocol.
\<close>

theorem convert_missing_protocol:
  assumes "loads json_config = Inr (JObj kvs)"
    and "map_of kvs ''protocol'' = None \<or> map_of kvs ''protocol'' = Some (JStr [])"
  shows "convert loads json_config name = Inl (unsupported_protocol [])
    \<and> unsupported_protocol [] = ValueError
        ''Unsupported protocol: . Supported: vless, vmess, trojan, ss, shadowsocks, hy, hysteria, hy2, hysteria2''"
proof
  from assms(2) have "dict_get (JObj kvs) ''protocol'' (JStr []) = Inr (JStr [])"
    by auto
  then show "convert loads json_config name = Inl (unsupported_protocol [])"
    using assms(1) by (simp add: convert_def convert_parsed_def lower_Nil no_handler_for_empty)
next
  show "unsupported_protocol [] = ValueError
        ''Unsupported protocol: . Supported: vless, vmess, trojan, ss, shadowsocks, hy, hysteria, hy2, hysteria2''"
    by (simp add: unsupported_protocol_def protocol_handlers_def)
qed

theorem convert_missing_protocol_witness:
  "convert (\<lambda>t. Inr (JObj [(''address'', JStr ''a.com'')])) ''{\"address\": \"a.com\"}''
      ''V2Ray Server''
     = Inl (unsupported_protocol [])"
proof -
  have h1: "(\<lambda>t. Inr (JObj [(''address'', JStr ''a.com'')])) ''{\"address\": \"a.com\"}''
      = (Inr (JObj [(''address'', JStr ''a.com'')]) :: string + json)"
    by simp
  have h2: "map_of [(''address'', JStr ''a.com'')] ''protocol'' = None
      \<or> map_of [(''address'', JStr ''a.com'')] ''protocol'' = Some (JStr [])"
    by simp
  from convert_missing_protocol
    [of "\<lambda>t. Inr (JObj [(''address'', JStr ''a.com'')])" "''{\"address\": \"a.com\"}''"
        "[(''address'', JStr ''a.com'')]" "''V2Ray Server''", OF h1 h2]
  show ?thesis by blast
qed

text \<open>
  The claim as the specification states it asks for an error of the missing protocol that
  differs from the one of an unsupported protocol. On the empty object the code raises the
  \<^verbatim>\<open>Unsupported protocol\<close> error.
\<close>

theorem missing_protocol_counterexample:
  "convert_parsed (JObj []) ''V2Ray Server'' = Inl (ValueError
     ''Unsupported protocol: . Supported: vless, vmess, trojan, ss, shadowsocks, hy, hysteria, hy2, hysteria2'')"
  by code_simp

section \<open>The vmess encoder\<close>

text \<open>
  C7, evaluated on the minimal vmess object (the protocol name and the three required
  fields, all valid): the model is built, and the encoder then reads
  \<^verbatim>\<open>vmess_config.header_type\<close>, which \<^verbatim>\<open>VMESSConfig\<close> does not declare. The conversion
  ends in an error instead of a URI that begins with \<^verbatim>\<open>vmess://\<close>.
\<close>

theorem vmess_minimal_fails:
  "convert_parsed
     (JObj [(''protocol'', JStr ''vmess''), (''id'', JStr ''123e4567-e89b-12d3-a456-426614174000''),
            (''address'', JStr ''a.com''), (''port'', JInt 443)]) ''V2Ray Server''
   = Inl (ValueError (''Configuration validation error: '' @ sq @ ''VMESSConfig'' @ sq
        @ '' object has no attribute '' @ sq @ ''header_type'' @ sq))"
  by code_simp

text \<open>
  C6, as the code has it. For every input dictionary and every display name,
  \<^verbatim>\<open>convert_vmess\<close> raises: the validation error of \<^verbatim>\<open>VMESSConfig\<close> when the input is
  invalid, and otherwise the \<^verbatim>\<open>AttributeError\<close> of reading \<^verbatim>\<open>header_type\<close>, which the
  model does not declare. No vmess input yields a \<^verbatim>\<open>vmess://\<close> payload to decode.
\<close>

theorem convert_vmess_never_succeeds:
  "convert_vmess config name =
     (case VMESSConfig config of
        Inl e \<Rightarrow> Inl e
      | Inr vmess_config \<Rightarrow>
          Inl (AttributeError (sq @ ''VMESSConfig'' @ sq @ '' object has no attribute '' @ sq
                 @ ''header_type'' @ sq)))"
proof (cases "VMESSConfig config")
  case (Inl e)
  then show ?thesis by (simp add: convert_vmess_def)
next
  case (Inr obj)
  from BaseModel_init_Inr [OF instantiate_Inr [OF Inr [unfolded VMESSConfig_def]]]
  have obj: "obj = (''VMESSConfig'',
      map (\<lambda>f. (fname f, projr (field_result f config))) VMESSConfig_fields)"
    by simp
  show ?thesis
    unfolding convert_vmess_def Inr
    by (simp add: obj getattr_pair VMESSConfig_fields_def)
qed

section \<open>A port given as a decimal string\<close>

text \<open>
  C10. For every dictionary, every handler and every integer \<open>n\<close>, the port given as the
  decimal string of \<open>n\<close> (\<^verbatim>\<open>"443"\<close>) gives the very result of the port given as the
  integer \<open>n\<close>: \<^verbatim>\<open>int_validator\<close> turns the string into \<open>n\<close> before \<^verbatim>\<open>validate_port\<close>
  checks the range, so the validated models, and with them the URI or the error, are the
  same. The second part states the value the port field takes.
\<close>

theorem port_string_same_result:
  "convert_parsed (JObj ((''port'', JStr (str_int n)) # kvs)) name
     = convert_parsed (JObj ((''port'', JInt n) # kvs)) name
   \<and> field_result (req ''port'' ''port'' (IntField validate_port))
         (map_of ((''port'', JStr (str_int n)) # kvs))
     = (if 1 \<le> n \<and> n \<le> 65535 then Inr (PInt n)
        else Inl (''port'', ''Port must be between 1 and 65535, got '' @ str_int n,
                  ''value_error''))"
proof
  show "convert_parsed (JObj ((''port'', JStr (str_int n)) # kvs)) name
     = convert_parsed (JObj ((''port'', JInt n) # kvs)) name"
  proof (rule convert_parsed_cong)
    show "map_of ((''port'', JStr (str_int n)) # kvs) ''protocol''
        = map_of ((''port'', JInt n) # kvs) ''protocol''"
      by simp
  next
    fix p handler
    assume h: "(p, handler) \<in> set protocol_handlers"
    have vf: "validate_fields fs (map_of ((''port'', JStr (str_int n)) # kvs))
        = validate_fields fs (map_of ((''port'', JInt n) # kvs))" for fs
      by (rule validate_fields_cong) (simp add: field_result_str_int)
    have ck: "map_of ((''port'', JStr (str_int n)) # kvs) ''__pydantic_self__''
        = map_of ((''port'', JInt n) # kvs) ''__pydantic_self__''"
      by simp
    show "handler (map_of ((''port'', JStr (str_int n)) # kvs)) name
        = handler (map_of ((''port'', JInt n) # kvs)) name"
      using handler_cong [OF vf h ck] .
  qed
next
  show "field_result (req ''port'' ''port'' (IntField validate_port))
         (map_of ((''port'', JStr (str_int n)) # kvs))
     = (if 1 \<le> n \<and> n \<le> 65535 then Inr (PInt n)
        else Inl (''port'', ''Port must be between 1 and 65535, got '' @ str_int n,
                  ''value_error''))"
    by (simp add: field_result_def field_input_def validate_value_def req_def
        py_int_str_int class_validator_def validate_port_def)
qed

section \<open>The port range\<close>








section \<open>Missing required fields\<close>






section \<open>Keys that belong to no field\<close>

lemma handler_model_cases:
  assumes "map_of handler_model p = Some fs"
  obtains "fs = VLESSConfig_fields" "map_of protocol_handlers p = Some convert_vless"
  | "fs = VMESSConfig_fields" "map_of protocol_handlers p = Some convert_vmess"
  | "fs = TROJANConfig_fields" "map_of protocol_handlers p = Some convert_trojan"
  | "fs = ShadowsocksConfig_fields" "map_of protocol_handlers p = Some convert_shadowsocks"
  | "fs = Hysteria1Config_fields" "map_of protocol_handlers p = Some convert_hysteria1"
  | "fs = Hysteria2Config_fields" "map_of protocol_handlers p = Some convert_hysteria2"
  using assms
  by (auto simp: handler_model_def protocol_handlers_def split: if_splits)

lemma handler_model_cong:
  assumes "map_of handler_model p = Some fs"
    and "validate_fields fs m = validate_fields fs m'"
    and "m ''__pydantic_self__'' = m' ''__pydantic_self__''"
  shows "\<exists>handler. map_of protocol_handlers p = Some handler \<and> handler m name = handler m' name"
  using assms(1)
proof (cases rule: handler_model_cases)
  case 1
  with instantiate_cong [OF assms(2,3)] show ?thesis by (simp add: convert_vless_def VLESSConfig_def)
next
  case 2
  with instantiate_cong [OF assms(2,3)] show ?thesis by (simp add: convert_vmess_def VMESSConfig_def)
next
  case 3
  with instantiate_cong [OF assms(2,3)] show ?thesis by (simp add: convert_trojan_def TROJANConfig_def)
next
  case 4
  with instantiate_cong [OF assms(2,3)] show ?thesis
    by (simp add: convert_shadowsocks_def ShadowsocksConfig_def)
next
  case 5
  with instantiate_cong [OF assms(2,3)] show ?thesis
    by (simp add: convert_hysteria1_def Hysteria1Config_def)
next
  case 6
  with instantiate_cong [OF assms(2,3)] show ?thesis
    by (simp add: convert_hysteria2_def Hysteria2Config_def)
qed

lemma handler_model_protocol:
  assumes "map_of handler_model p = Some fs"
  shows "''protocol'' \<in> fname ` set fs"
  using assms
  by (cases rule: handler_model_cases)
    (simp_all add: VLESSConfig_fields_def VMESSConfig_fields_def TROJANConfig_fields_def
      ShadowsocksConfig_fields_def Hysteria1Config_fields_def Hysteria2Config_fields_def)

lemma field_result_other_key:
  assumes "falias f \<noteq> k" and "fname f \<noteq> k"
  shows "field_result f (m(k \<mapsto> v)) = field_result f m"
proof -
  from assms have "field_input f (m(k \<mapsto> v)) = field_input f m"
    by (simp add: field_input_def split: option.splits)
  then show ?thesis by (simp add: field_result_def)
qed

text \<open>
  C9, as the code has it. Take an input object whose protocol resolves to a handler, and a
  key that is neither the name nor the alias of a field of that handler's model and is not
  \<^verbatim>\<open>__pydantic_self__\<close>. Adding the key, with any value, leaves the result of \<^verbatim>\<open>convert\<close>
  as it is: the same URI, or the same error. The models keep pydantic's default for extra
  keys, which is to ignore them; the one key left out is the name of the first parameter of
  \<^verbatim>\<open>BaseModel.__init__\<close>, which the keyword expansion \<^verbatim>\<open>Config(**config)\<close> cannot pass.
\<close>

theorem unknown_key_ignored:
  assumes "map_of kvs ''protocol'' = Some (JStr p)"
    and "map_of handler_model (lower p) = Some fields"
    and "k \<notin> fname ` set fields" and "k \<notin> falias ` set fields"
    and "k \<noteq> ''__pydantic_self__''"
  shows "convert_parsed (JObj ((k, v) # kvs)) name = convert_parsed (JObj kvs) name"
proof -
  have ck: "map_of ((k, v) # kvs) ''__pydantic_self__'' = map_of kvs ''__pydantic_self__''"
    using assms(5) by simp
  have k: "k \<noteq> ''protocol''"
    using handler_model_protocol [OF assms(2)] assms(3) by auto
  have dg: "dict_get (JObj ((k, v) # kvs)) ''protocol'' (JStr []) = Inr (JStr p)"
    and dg': "dict_get (JObj kvs) ''protocol'' (JStr []) = Inr (JStr p)"
    using k assms(1) by simp_all
  have "validate_fields fields (map_of ((k, v) # kvs)) = validate_fields fields (map_of kvs)"
  proof (rule validate_fields_cong)
    fix f assume "f \<in> set fields"
    with assms(3,4) have "falias f \<noteq> k" "fname f \<noteq> k" by auto
    then show "field_result f (map_of ((k, v) # kvs)) = field_result f (map_of kvs)"
      by (simp add: field_result_other_key)
  qed
  from handler_model_cong [OF assms(2) this ck, of name]
  obtain handler where h: "map_of protocol_handlers (lower p) = Some handler"
    and eq: "handler (map_of ((k, v) # kvs)) name = handler (map_of kvs) name"
    by blast
  show ?thesis
    unfolding convert_parsed_def dg dg' using eq by (simp add: h)
qed


theorem unknown_key_ignored_witness:
  "convert_parsed
     (JObj [(''comment'', JBool True), (''protocol'', JStr ''Trojan''), (''password'', JStr ''secret''),
            (''address'', JStr ''a.com''), (''port'', JInt 443)]) ''My Server''
   = Inr ''trojan://secret@a.com:443?type=tcp&security=tls#My%20Server''"
proof -
  let ?kvs = "[(''protocol'', JStr ''Trojan''), (''password'', JStr ''secret''),
               (''address'', JStr ''a.com''), (''port'', JInt 443)]"
  have h1: "map_of ?kvs ''protocol'' = Some (JStr ''Trojan'')" by simp
  have l: "lower ''Trojan'' = ''trojan''" by code_simp
  have h2: "map_of handler_model (lower ''Trojan'') = Some TROJANConfig_fields"
    unfolding l by (simp add: handler_model_def)
  have h3: "''comment'' \<notin> fname ` set TROJANConfig_fields"
    and h4: "''comment'' \<notin> falias ` set TROJANConfig_fields"
    by (simp_all add: TROJANConfig_fields_def)
  have r: "convert_parsed (JObj ?kvs) ''My Server''
      = Inr ''trojan://secret@a.com:443?type=tcp&security=tls#My%20Server''"
    by code_simp
  have h5: "''comment'' \<noteq> ''__pydantic_self__''" by simp
  from unknown_key_ignored [OF h1 h2 h3 h4 h5, of "JBool True" "''My Server''"] r
  show ?thesis by (simp only:)
qed

text \<open>
  The claim as the specification states it covers every key that is no field and no alias.
  The key \<^verbatim>\<open>__pydantic_self__\<close> is neither for \<^verbatim>\<open>TROJANConfig\<close>, and adding it to a valid
  trojan object turns the URI into an error.
\<close>

theorem pydantic_self_key_counterexample:
  "''__pydantic_self__'' \<notin> fname ` set TROJANConfig_fields
   \<and> ''__pydantic_self__'' \<notin> falias ` set TROJANConfig_fields
   \<and> convert_parsed
       (JObj [(''protocol'', JStr ''trojan''), (''password'', JStr ''secret''),
              (''address'', JStr ''a.com''), (''port'', JInt 443)]) ''V2Ray Server''
       = Inr ''trojan://secret@a.com:443?type=tcp&security=tls#V2Ray%20Server''
   \<and> convert_parsed
       (JObj [(''__pydantic_self__'', JInt 1), (''protocol'', JStr ''trojan''),
              (''password'', JStr ''secret''), (''address'', JStr ''a.com''),
              (''port'', JInt 443)]) ''V2Ray Server''
       = Inl (ValueError (''Configuration validation error: '' @ init_clash_message))"
proof -
  have "''__pydantic_self__'' \<notin> fname ` set TROJANConfig_fields"
    and "''__pydantic_self__'' \<notin> falias ` set TROJANConfig_fields"
    by (simp_all add: TROJANConfig_fields_def)
  moreover have "convert_parsed
       (JObj [(''protocol'', JStr ''trojan''), (''password'', JStr ''secret''),
              (''address'', JStr ''a.com''), (''port'', JInt 443)]) ''V2Ray Server''
       = Inr ''trojan://secret@a.com:443?type=tcp&security=tls#V2Ray%20Server''"
    by code_simp
  moreover have "convert_parsed
       (JObj [(''__pydantic_self__'', JInt 1), (''protocol'', JStr ''trojan''),
              (''password'', JStr ''secret''), (''address'', JStr ''a.com''),
              (''port'', JInt 443)]) ''V2Ray Server''
       = Inl (ValueError (''Configuration validation error: '' @ init_clash_message))"
    by code_simp
  ultimately show ?thesis by (intro conjI)
qed

section \<open>The aliases \<^verbatim>\<open>ss\<close> and \<^verbatim>\<open>shadowsocks\<close>\<close>

lemma validate_fields_append:
  "validate_fields (fs @ gs) inp
     = (fst (validate_fields fs inp) @ fst (validate_fields gs inp),
        snd (validate_fields fs inp) @ snd (validate_fields gs inp))"
  by (induction fs) (auto split: prod.splits sum.splits)

lemma convert_shadowsocks_protocol:
  "convert_shadowsocks (m(''protocol'' \<mapsto> JStr p1)) name
     = convert_shadowsocks (m(''protocol'' \<mapsto> JStr p2)) name"
proof -
  define fs4 where "fs4 =
     [req ''method'' ''method'' (StrField validate_method),
      req ''password'' ''password'' (StrField validate_password),
      req ''address'' ''address'' (StrField no_validator),
      req ''port'' ''port'' (IntField validate_port)]"
  define pf where "pf = opt ''protocol'' ''protocol'' (StrField no_validator) False (PStr ''ss'')"
  have fs: "ShadowsocksConfig_fields = fs4 @ [pf]"
    by (simp add: ShadowsocksConfig_fields_def fs4_def pf_def)
  have same: "validate_fields fs4 (m(''protocol'' \<mapsto> JStr p)) = validate_fields fs4 m" for p
    by (rule validate_fields_cong) (auto simp: fs4_def field_result_other_key)
  have pr: "field_result pf (m(''protocol'' \<mapsto> JStr p)) = Inr (PStr p)" for p
    by (simp add: pf_def field_result_def field_input_def validate_value_def opt_def
        class_validator_def no_validator_def)
  have pn: "fname pf = ''protocol''" by (simp add: pf_def)
  obtain vals errs where v: "validate_fields fs4 m = (vals, errs)"
    by (cases "validate_fields fs4 m")
  have all: "validate_fields ShadowsocksConfig_fields (m(''protocol'' \<mapsto> JStr p))
      = (vals @ [(''protocol'', PStr p)], errs)" for p
    by (simp add: fs validate_fields_append same v pr pn)
  show ?thesis
  proof (cases "m ''__pydantic_self__'' = None")
    case False
    then show ?thesis
      by (simp add: convert_shadowsocks_def ShadowsocksConfig_def instantiate_def)
  next
    case nc: True
    have i: "instantiate cls fs (m(''protocol'' \<mapsto> JStr p))
        = BaseModel_init cls fs (m(''protocol'' \<mapsto> JStr p))" for cls fs p
      by (rule instantiate_no_clash) (simp add: nc)
    show ?thesis
    proof (cases "errs = []")
      case False
      then show ?thesis
        by (simp add: convert_shadowsocks_def ShadowsocksConfig_def i BaseModel_init_def all)
    next
      case True
      from validate_fields_ok [OF v [unfolded True]]
      have "vals = map (\<lambda>f. (fname f, projr (field_result f m))) fs4" by simp
      then show ?thesis
        by (simp add: convert_shadowsocks_def ShadowsocksConfig_def i BaseModel_init_def all
            True getattr_pair fs4_def)
    qed
  qed
qed

text \<open>
  C8. Two input objects that differ only in the protocol, one resolving (in any letter
  case) to \<^verbatim>\<open>ss\<close> and the other to \<^verbatim>\<open>shadowsocks\<close>, give the same result with the same
  display name: both names select \<^verbatim>\<open>convert_shadowsocks\<close>, which never reads the
  \<^verbatim>\<open>protocol\<close> field of its model. The outputs are equal as strings, hence equal in scheme,
  in \<^verbatim>\<open>address:port\<close> and in the encoded \<^verbatim>\<open>method:password\<close>.
\<close>

theorem ss_alias_same_output:
  assumes "lower p1 = ''ss''" and "lower p2 = ''shadowsocks''"
  shows "convert_parsed (JObj ((''protocol'', JStr p1) # kvs)) name
     = convert_parsed (JObj ((''protocol'', JStr p2) # kvs)) name"
proof -
  have dg: "dict_get (JObj ((''protocol'', JStr p) # kvs)) ''protocol'' (JStr []) = Inr (JStr p)"
    for p by simp
  have h1: "map_of protocol_handlers ''ss'' = Some convert_shadowsocks"
    and h2: "map_of protocol_handlers ''shadowsocks'' = Some convert_shadowsocks"
    by (simp_all add: protocol_handlers_def)
  show ?thesis
    unfolding convert_parsed_def dg
    using convert_shadowsocks_protocol [of "map_of kvs" p1 name p2]
    by (simp add: assms h1 h2)
qed

theorem ss_alias_same_output_witness:
  "convert_parsed
     (JObj [(''protocol'', JStr ''SS''), (''method'', JStr ''aes-256-gcm''),
            (''password'', JStr ''secret''), (''address'', JStr ''a.com''), (''port'', JInt 443)])
     ''My Server''
   = Inr ''ss://YWVzLTI1Ni1nY206c2VjcmV0@a.com:443#My%20Server''
   \<and> convert_parsed
     (JObj [(''protocol'', JStr ''Shadowsocks''), (''method'', JStr ''aes-256-gcm''),
            (''password'', JStr ''secret''), (''address'', JStr ''a.com''), (''port'', JInt 443)])
     ''My Server''
   = Inr ''ss://YWVzLTI1Ni1nY206c2VjcmV0@a.com:443#My%20Server''"
proof -
  have h1: "lower ''SS'' = ''ss''" and h2: "lower ''Shadowsocks'' = ''shadowsocks''"
    by code_simp+
  have r: "convert_parsed
     (JObj [(''protocol'', JStr ''SS''), (''method'', JStr ''aes-256-gcm''),
            (''password'', JStr ''secret''), (''address'', JStr ''a.com''), (''port'', JInt 443)])
     ''My Server''
   = Inr ''ss://YWVzLTI1Ni1nY206c2VjcmV0@a.com:443#My%20Server''"
    by code_simp
  from ss_alias_same_output [OF h1 h2,
      of "[(''method'', JStr ''aes-256-gcm''), (''password'', JStr ''secret''),
           (''address'', JStr ''a.com''), (''port'', JInt 443)]" "''My Server''"] r
  show ?thesis by (simp only:)
qed

section \<open>The form of a hysteria1 URI\<close>

lemma join_Cons_nonempty: "x \<noteq> [] \<Longrightarrow> join sep (x # xs) \<noteq> []"
  by (cases xs) auto

lemma urlencode_nonempty: "params \<noteq> [] \<Longrightarrow> urlencode params \<noteq> []"
  by (cases params) (auto simp: urlencode_def intro!: join_Cons_nonempty)

lemma field_result_req_str:
  "field_result (req n a (StrField val)) inp = Inr pv \<Longrightarrow> \<exists>s. pv = PStr s"
  by (auto simp: field_result_def req_def validate_value_def
      split: option.splits sum.splits prod.splits if_splits)

lemma field_result_req_int:
  "field_result (req n a (IntField val)) inp = Inr pv \<Longrightarrow> \<exists>i. pv = PInt i"
  by (auto simp: field_result_def req_def validate_value_def
      split: option.splits sum.splits prod.splits if_splits)

lemma hysteria1_encode:
  "bind (quote_val (PStr auth)) (\<lambda>userinfo.
       let server = py_str (PStr address) @ '':'' @ py_str (PInt port);
           params = [];
           params = (if truthy tls then dict_set params ''tls'' (PStr ''1'') else params);
           params = set_if params ''sni'' sni;
           params = set_if params ''alpn'' alpn;
           params = set_if params ''protocol'' protocol_string;
           query_string = (if params \<noteq> [] then urlencode params else []);
           uri = ''hysteria://'' @ userinfo @ ''@'' @ server;
           uri = (if query_string \<noteq> [] then uri @ ''?'' @ query_string else uri)
       in Inr (uri @ ''#'' @ quote name))
   = Inr (''hysteria://'' @ quote auth @ ''@'' @ address @ '':'' @ str_int port
          @ hysteria1_query tls sni alpn protocol_string @ ''#'' @ quote name)"
  by (simp add: Let_def set_if_def hysteria1_query_def hysteria1_params_def urlencode_nonempty)

text \<open>
  C4. For every input that \<^verbatim>\<open>Hysteria1Config\<close> validates, the encoder returns
  \<^verbatim>\<open>hysteria://\<close>, the percent-encoded \<^verbatim>\<open>auth_string\<close>, \<^verbatim>\<open>@\<close>, the address, \<^verbatim>\<open>:\<close>, the
  port, the query, \<^verbatim>\<open>#\<close> and the percent-encoded name, where the fields are those of the
  validated model and the query is the one of the specification:
  absent, with its \<^verbatim>\<open>?\<close>, when none of \<^verbatim>\<open>tls\<close>, \<^verbatim>\<open>sni\<close>, \<^verbatim>\<open>alpn\<close>,
  \<^verbatim>\<open>protocol_string\<close> is present on the model. The model has the defaults \<^verbatim>\<open>tls = "tls"\<close>
  and \<^verbatim>\<open>alpn = "h2"\<close>, so the query is absent only when the input sets both to \<^verbatim>\<open>null\<close> or
  to the empty string.
\<close>

theorem hysteria1_uri_form:
  assumes "Hysteria1Config config = Inr hy_config"
  shows "\<exists>auth address port tls sni alpn protocol_string.
      getattr hy_config ''auth_string'' = Inr (PStr auth)
    \<and> getattr hy_config ''address'' = Inr (PStr address)
    \<and> getattr hy_config ''port'' = Inr (PInt port)
    \<and> getattr hy_config ''tls'' = Inr tls
    \<and> getattr hy_config ''sni'' = Inr sni
    \<and> getattr hy_config ''alpn'' = Inr alpn
    \<and> getattr hy_config ''protocol_string'' = Inr protocol_string
    \<and> convert_hysteria1 config name
        = Inr (''hysteria://'' @ quote auth @ ''@'' @ address @ '':'' @ str_int port
               @ hysteria1_query tls sni alpn protocol_string @ ''#'' @ quote name)"
proof -
  from BaseModel_init_Inr [OF instantiate_Inr [OF assms [unfolded Hysteria1Config_def]]]
  have obj: "hy_config = (''Hysteria1Config'',
      map (\<lambda>f. (fname f, projr (field_result f config))) Hysteria1Config_fields)"
    and ok: "\<forall>f\<in>set Hysteria1Config_fields. \<exists>pv. field_result f config = Inr pv"
    by simp_all
  from ok obtain auth where
    auth: "field_result (req ''auth_string'' ''authString'' (StrField no_validator)) config
      = Inr (PStr auth)"
    by (auto simp: Hysteria1Config_fields_def dest: field_result_req_str)
  from ok obtain address where
    address: "field_result (req ''address'' ''address'' (StrField no_validator)) config
      = Inr (PStr address)"
    by (auto simp: Hysteria1Config_fields_def dest: field_result_req_str)
  from ok obtain port where
    port: "field_result (req ''port'' ''port'' (IntField validate_port)) config = Inr (PInt port)"
    by (auto simp: Hysteria1Config_fields_def dest: field_result_req_int)
  define tls where
    "tls = projr (field_result (opt ''tls'' ''tls'' (StrField no_validator) True (PStr ''tls''))
                    config)"
  define sni where
    "sni = projr (field_result (opt ''sni'' ''sni'' (StrField no_validator) True PNone) config)"
  define alpn where
    "alpn = projr (field_result (opt ''alpn'' ''alpn'' (StrField no_validator) True (PStr ''h2''))
                     config)"
  define protocol_string where
    "protocol_string = projr (field_result
        (opt ''protocol_string'' ''protocolString'' (StrField no_validator) True PNone) config)"
  have g1: "getattr hy_config ''auth_string'' = Inr (PStr auth)"
    and g2: "getattr hy_config ''address'' = Inr (PStr address)"
    and g3: "getattr hy_config ''port'' = Inr (PInt port)"
    and g4: "getattr hy_config ''tls'' = Inr tls"
    and g5: "getattr hy_config ''sni'' = Inr sni"
    and g6: "getattr hy_config ''alpn'' = Inr alpn"
    and g7: "getattr hy_config ''protocol_string'' = Inr protocol_string"
    by (simp_all add: obj getattr_pair Hysteria1Config_fields_def auth address port
        tls_def sni_def alpn_def protocol_string_def)
  have "convert_hysteria1 config name
      = Inr (''hysteria://'' @ quote auth @ ''@'' @ address @ '':'' @ str_int port
             @ hysteria1_query tls sni alpn protocol_string @ ''#'' @ quote name)"
    unfolding convert_hysteria1_def assms
    by (simp only: bind_Inr g1 g2 g3 g4 g5 g6 g7 hysteria1_encode)
  with g1 g2 g3 g4 g5 g6 g7 show ?thesis by blast
qed

theorem hysteria1_uri_form_witness:
  "convert_hysteria1
     (map_of [(''protocol'', JStr ''hy''), (''authString'', JStr ''se cret''),
              (''address'', JStr ''a.com''), (''port'', JInt 443),
              (''tls'', JNull), (''alpn'', JStr [])]) ''My Server''
     = Inr ''hysteria://se%20cret@a.com:443#My%20Server''
   \<and> convert_hysteria1
     (map_of [(''protocol'', JStr ''hy''), (''authString'', JStr ''se cret''),
              (''address'', JStr ''a.com''), (''port'', JInt 443)]) ''My Server''
     = Inr ''hysteria://se%20cret@a.com:443?tls=1&alpn=h2#My%20Server''"
proof -
  let ?c1 = "map_of [(''protocol'', JStr ''hy''), (''authString'', JStr ''se cret''),
              (''address'', JStr ''a.com''), (''port'', JInt 443),
              (''tls'', JNull), (''alpn'', JStr [])]"
  let ?o1 = "(''Hysteria1Config'',
     [(''protocol'', PStr ''hy''), (''auth_string'', PStr ''se cret''),
      (''address'', PStr ''a.com''), (''port'', PInt 443), (''tls'', PNone), (''sni'', PNone),
      (''alpn'', PStr []), (''protocol_string'', PNone)])"
  have h1: "Hysteria1Config ?c1 = Inr ?o1" by code_simp
  have q1: "hysteria1_query PNone PNone (PStr []) PNone = []" by code_simp
  have e1: "''hysteria://'' @ quote ''se cret'' @ ''@'' @ ''a.com'' @ '':'' @ str_int 443
      @ [] @ ''#'' @ quote ''My Server'' = ''hysteria://se%20cret@a.com:443#My%20Server''"
    by code_simp
  have a1: "getattr ?o1 ''auth_string'' = Inr (PStr ''se cret'')"
    "getattr ?o1 ''address'' = Inr (PStr ''a.com'')"
    "getattr ?o1 ''port'' = Inr (PInt 443)"
    "getattr ?o1 ''tls'' = Inr PNone"
    "getattr ?o1 ''sni'' = Inr PNone"
    "getattr ?o1 ''alpn'' = Inr (PStr [])"
    "getattr ?o1 ''protocol_string'' = Inr PNone"
    by (simp_all add: getattr_def)
  from hysteria1_uri_form [OF h1, of "''My Server''"]
  have r1: "convert_hysteria1 ?c1 ''My Server'' = Inr ''hysteria://se%20cret@a.com:443#My%20Server''"
    unfolding a1 using q1 e1 by auto
  have r2: "convert_hysteria1
     (map_of [(''protocol'', JStr ''hy''), (''authString'', JStr ''se cret''),
              (''address'', JStr ''a.com''), (''port'', JInt 443)]) ''My Server''
     = Inr ''hysteria://se%20cret@a.com:443?tls=1&alpn=h2#My%20Server''"
    by code_simp
  from r1 r2 show ?thesis by (intro conjI)
qed

section \<open>The uuid validator\<close>

lemma is_hex_props:
  assumes "is_hex c"
  shows "digit_value c < 16" "c \<noteq> CHR ''_''" "\<not> py_isspace c" "c \<noteq> CHR ''+''" "c \<noteq> CHR ''-''"
    "c \<noteq> CHR ''x''" "c \<noteq> CHR ''X''" "c \<noteq> CHR ''u''" "c \<noteq> CHR ''{''" "c \<noteq> CHR ''}''"
  using assms by (auto simp: is_hex_def digit_value_def py_isspace_def)

lemma str_remove_absent:
  "old \<noteq> [] \<Longrightarrow> hd old \<notin> set s \<Longrightarrow> str_remove old s = s"
proof (induction s)
  case Nil
  show ?case by (simp add: str_remove.simps)
next
  case (Cons c cs)
  from Cons.prems have "take (length old) (c # cs) \<noteq> old"
    by (cases old) auto
  with Cons show ?case by (simp add: str_remove.simps)
qed

lemma str_remove_char: "str_remove [x] s = filter (\<lambda>c. c \<noteq> x) s"
  by (induction s) (auto simp: str_remove.simps)

lemma strip_absent: "\<forall>c\<in>set s. c \<notin> set chars \<Longrightarrow> strip chars s = s"
proof -
  assume a: "\<forall>c\<in>set s. c \<notin> set chars"
  have d: "dropWhile (\<lambda>c. c \<in> set chars) t = t" if "\<forall>c\<in>set t. c \<notin> set chars" for t
    using that by (cases t) auto
  from a show ?thesis by (simp add: strip_def d)
qed

lemma digits_value_bound_aux:
  assumes "\<forall>c\<in>set xs. digit_value c < 16" and "0 \<le> a" and "a < 16 ^ k"
  shows "0 \<le> foldl (\<lambda>acc c. acc * 16 + int (digit_value c)) a xs
       \<and> foldl (\<lambda>acc c. acc * 16 + int (digit_value c)) a xs < 16 ^ (k + length xs)"
  using assms
proof (induction xs arbitrary: a k)
  case Nil
  then show ?case by simp
next
  case (Cons x xs)
  have x: "int (digit_value x) < 16" "0 \<le> int (digit_value x)" using Cons.prems(1) by auto
  have 1: "0 \<le> a * 16 + int (digit_value x)" using Cons.prems(2) x by simp
  have "a + 1 \<le> 16 ^ k" using Cons.prems(3) by simp
  then have "(a + 1) * 16 \<le> 16 ^ k * 16" by (rule mult_right_mono) simp
  then have 2: "a * 16 + int (digit_value x) < 16 ^ (Suc k)" using x by (simp add: algebra_simps)
  from Cons.IH [OF _ 1 2] Cons.prems(1) show ?case by simp
qed

lemma py_int_hex:
  assumes "length h = 32" and "\<forall>c\<in>set h. is_hex c"
  shows "\<exists>i. py_int h 16 = Some i \<and> 0 \<le> i \<and> i < 2 ^ 128"
proof -
  obtain c d ds where h: "h = c # d # ds"
    using assms(1) by (cases h; cases "tl h") auto
  have c: "is_hex c" and d: "is_hex d" using assms(2) h by auto
  have all: "\<forall>x\<in>set (c # d # ds). is_digit_or_us 16 x"
    using assms(2) h by (auto simp: is_digit_or_us_def dest: is_hex_props(1))
  have tw: "takeWhile (is_digit_or_us 16) (c # d # ds) = c # d # ds"
    using all by (simp only: takeWhile_eq_all_conv)
  have dw: "dropWhile (is_digit_or_us 16) (c # d # ds) = []"
    using all by (simp only: dropWhile_eq_Nil_conv)
  have nus: "CHR ''_'' \<notin> set (c # d # ds)"
    using assms(2) h by (auto dest: is_hex_props(2))
  have us: "underscores_ok (c # d # ds)" using nus by (rule no_underscore_ok)
  have sp: "dropWhile py_isspace (c # d # ds) = c # d # ds"
    using is_hex_props(3) [OF c] by simp
  have sk: "skip_prefix 16 (c # d # ds) = c # d # ds"
    using is_hex_props(6,7) [OF d] by (simp add: skip_prefix_def)
  have v: "py_int h 16 = Some (digits_value 16 h)"
    unfolding py_int_def h sp Let_def
    using is_hex_props [OF c]
    by (simp add: sk tw dw us del: takeWhile.simps dropWhile.simps underscores_ok.simps)
  have f: "filter (\<lambda>c. c \<noteq> CHR ''_'') h = h"
    using nus h by (simp only: filter_id_conv) auto
  have dv: "\<forall>c\<in>set h. digit_value c < 16" using assms(2) by (auto dest: is_hex_props(1))
  from digits_value_bound_aux [OF dv, of 0 0]
  have "0 \<le> digits_value 16 h \<and> digits_value 16 h < 16 ^ 32"
    by (simp add: digits_value_def f assms(1))
  moreover have "(16::int) ^ 32 = 2 ^ 128" by simp
  ultimately show ?thesis using v by simp
qed

lemma uuid_accept:
  assumes "\<forall>c\<in>set v. is_hex c \<or> c = CHR ''-''"
    and "length (filter (\<lambda>c. c \<noteq> CHR ''-'') v) = 32"
  shows "validate_uuid v = Inr v"
proof -
  have nu: "CHR ''u'' \<notin> set v" and nb: "\<forall>c\<in>set v. c \<notin> set ''{}''"
    using assms(1) by (auto dest: is_hex_props)
  have hx: "uuid_hex v = filter (\<lambda>c. c \<noteq> CHR ''-'') v"
    using nu by (simp add: uuid_hex_def str_remove_absent strip_absent [OF nb] str_remove_char)
  have ah: "\<forall>c\<in>set (uuid_hex v). is_hex c" using assms(1) by (auto simp: hx)
  from py_int_hex [OF _ ah] assms(2) hx
  obtain i where "py_int (uuid_hex v) 16 = Some i" "0 \<le> i" "i < 2 ^ 128" by auto
  then show ?thesis using assms(2) hx by (simp add: validate_uuid_def uuid_UUID_def)
qed


lemma canonical_split:
  assumes "length s = 36"
  shows "s = take 8 s @ s ! 8 # take 4 (drop 9 s) @ s ! 13 # take 4 (drop 14 s)
             @ s ! 18 # take 4 (drop 19 s) @ s ! 23 # drop 24 s"
proof -
  have n: "\<And>i. i < 36 \<Longrightarrow> drop i s = s ! i # drop (Suc i) s"
    using assms by (simp add: Cons_nth_drop_Suc)
  have t: "drop i s = take 4 (drop i s) @ drop (i + 4) s" for i
  proof -
    have "drop i s = take 4 (drop i s) @ drop 4 (drop i s)"
      by (simp only: append_take_drop_id)
    also have "drop 4 (drop i s) = drop (i + 4) s"
      by (simp add: add.commute)
    finally show ?thesis .
  qed
  have "s = take 8 s @ drop 8 s" by simp
  also have "drop 8 s = s ! 8 # drop 9 s" using n [of 8] by simp
  also have "drop 9 s = take 4 (drop 9 s) @ drop 13 s" using t [of 9] by simp
  also have "drop 13 s = s ! 13 # drop 14 s" using n [of 13] by simp
  also have "drop 14 s = take 4 (drop 14 s) @ drop 18 s" using t [of 14] by simp
  also have "drop 18 s = s ! 18 # drop 19 s" using n [of 18] by simp
  also have "drop 19 s = take 4 (drop 19 s) @ drop 23 s" using t [of 19] by simp
  also have "drop 23 s = s ! 23 # drop 24 s" using n [of 23] by simp
  finally show ?thesis .
qed

lemma canonical_accept:
  assumes "canonical_uuid v"
  shows "validate_uuid v = Inr v"
proof -
  define a b c d e where "a = take 8 v" and "b = take 4 (drop 9 v)" and "c = take 4 (drop 14 v)"
    and "d = take 4 (drop 19 v)" and "e = drop 24 v"
  from assms have len: "length v = 36" by (simp add: canonical_uuid_def)
  from assms canonical_split [OF len]
  have v: "v = a @ CHR ''-'' # b @ CHR ''-'' # c @ CHR ''-'' # d @ CHR ''-'' # e"
    by (simp add: canonical_uuid_def a_def b_def c_def d_def e_def)
  from assms have hex: "\<forall>x\<in>set (a @ b @ c @ d @ e). is_hex x"
    by (auto simp: canonical_uuid_def a_def b_def c_def d_def e_def list_all_iff)
  have lens: "length (a @ b @ c @ d @ e) = 32"
    using len by (simp add: a_def b_def c_def d_def e_def)
  have nd: "\<forall>x\<in>set (a @ b @ c @ d @ e). x \<noteq> CHR ''-''"
    using hex by (auto dest: is_hex_props(5))
  then have f: "filter (\<lambda>c. c \<noteq> CHR ''-'') v = a @ b @ c @ d @ e"
    by (subst v) (simp add: filter_id_conv)
  have 1: "\<forall>x\<in>set v. is_hex x \<or> x = CHR ''-''"
    using hex by (subst v) auto
  show ?thesis
    by (rule uuid_accept [OF 1]) (simp only: f lens)
qed

lemma skip_prefix_sub:
  "length (skip_prefix b s) \<le> length s"
  by (simp add: skip_prefix_def)

lemma digits_value_range:
  assumes "\<forall>c\<in>set body. is_digit_or_us 16 c"
  shows "0 \<le> digits_value 16 body \<and> digits_value 16 body < 16 ^ length body"
proof -
  let ?ds = "filter (\<lambda>c. c \<noteq> CHR ''_'') body"
  have dv: "\<forall>c\<in>set ?ds. digit_value c < 16"
    using assms by (auto simp: is_digit_or_us_def)
  from digits_value_bound_aux [OF dv, of 0 0]
  have 1: "0 \<le> digits_value 16 body" and 2: "digits_value 16 body < 16 ^ length ?ds"
    by (simp_all add: digits_value_def)
  have "length ?ds \<le> length body" by simp
  then have "(16::int) ^ length ?ds \<le> 16 ^ length body"
    by (intro power_increasing) simp_all
  with 2 have "digits_value 16 body < 16 ^ length body" by (rule order_less_le_trans)
  with 1 show ?thesis by (intro conjI)
qed

lemma py_int_range:
  assumes "py_int h 16 = Some i" and "CHR ''-'' \<notin> set h"
  shows "0 \<le> i \<and> i < 16 ^ length h"
proof -
  define s1 where "s1 = dropWhile py_isspace h"
  define s2 where "s2 = (if take 1 s1 = ''+'' \<or> take 1 s1 = ''-'' then drop 1 s1 else s1)"
  define s3 where "s3 = skip_prefix 16 s2"
  define body where "body = takeWhile (is_digit_or_us 16) s3"
  have nn: "take 1 s1 \<noteq> ''-''"
  proof
    assume "take 1 s1 = ''-''"
    then have "CHR ''-'' \<in> set (take 1 s1)" by simp
    then have "CHR ''-'' \<in> set s1" by (rule in_set_takeD)
    then have "CHR ''-'' \<in> set h" unfolding s1_def by (rule set_dropWhileD)
    with assms(2) show False by simp
  qed
  from assms(1) have i: "i = digits_value 16 body"
    unfolding py_int_def Let_def s1_def [symmetric] s2_def [symmetric] s3_def [symmetric]
      body_def [symmetric]
    using nn by (simp split: if_splits)
  have "length s1 \<le> length h" unfolding s1_def by (rule length_dropWhile_le)
  moreover have "length s2 \<le> length s1" by (simp add: s2_def)
  moreover have "length s3 \<le> length s2" unfolding s3_def by (rule skip_prefix_sub)
  moreover have "length body \<le> length s3" unfolding body_def by (rule length_takeWhile_le)
  ultimately have "length body \<le> length h" by simp
  then have le: "(16::int) ^ length body \<le> 16 ^ length h"
    by (intro power_increasing) simp_all
  have "\<forall>c\<in>set body. is_digit_or_us 16 c"
    unfolding body_def by (auto dest: set_takeWhileD)
  from digits_value_range [OF this]
  have 1: "0 \<le> digits_value 16 body" and 2: "digits_value 16 body < 16 ^ length body"
    by (rule conjunct1, rule conjunct2)
  from 2 le have "digits_value 16 body < 16 ^ length h" by (rule order_less_le_trans)
  with 1 i show ?thesis by (intro conjI) simp_all
qed

lemma uuid_hex_no_hyphen: "CHR ''-'' \<notin> set (uuid_hex v)"
  by (simp add: uuid_hex_def str_remove_char)

lemma validate_uuid_iff:
  "validate_uuid v = Inr v \<longleftrightarrow> length (uuid_hex v) = 32 \<and> py_int (uuid_hex v) 16 \<noteq> None"
proof
  assume "validate_uuid v = Inr v"
  then show "length (uuid_hex v) = 32 \<and> py_int (uuid_hex v) 16 \<noteq> None"
    by (auto simp: validate_uuid_def uuid_UUID_def Let_def split: option.splits if_splits)
next
  assume a: "length (uuid_hex v) = 32 \<and> py_int (uuid_hex v) 16 \<noteq> None"
  then obtain i where i: "py_int (uuid_hex v) 16 = Some i" by auto
  from py_int_range [OF i uuid_hex_no_hyphen] a
  have "0 \<le> i" "i < 16 ^ 32" by auto
  moreover have "(16::int) ^ 32 = 2 ^ 128" by simp
  ultimately show "validate_uuid v = Inr v"
    using a i by (simp add: validate_uuid_def uuid_UUID_def)
qed

text \<open>
  C2, as the code has it. \<^verbatim>\<open>validate_uuid\<close> hands the string to \<^verbatim>\<open>uuid.UUID\<close>, which
  deletes \<^verbatim>\<open>urn:\<close> and \<^verbatim>\<open>uuid:\<close>, strips braces, deletes every hyphen and then wants 32
  characters that \<^verbatim>\<open>int(hex, 16)\<close> reads. A string is accepted exactly when it passes that
  test. So every canonical UUID of either case is accepted, and so is every string of 32
  hexadecimal digits without hyphens; a string is either accepted unchanged or rejected
  with \<^verbatim>\<open>Invalid UUID format\<close> followed by the string; and in the model a rejected string
  gives the error entry located at the input key \<^verbatim>\<open>id\<close>.
\<close>

theorem uuid_validator_accepts:
  "(validate_uuid v = Inr v
      \<longleftrightarrow> length (uuid_hex v) = 32 \<and> py_int (uuid_hex v) 16 \<noteq> None)
   \<and> (canonical_uuid v \<longrightarrow> validate_uuid v = Inr v)
   \<and> (length v = 32 \<and> list_all is_hex v \<longrightarrow> validate_uuid v = Inr v)
   \<and> (validate_uuid v = Inr v \<or> validate_uuid v = Inl (''Invalid UUID format: '' @ v))
   \<and> (validate_uuid v \<noteq> Inr v \<longrightarrow>
        field_result (req ''uuid'' ''id'' (StrField validate_uuid)) (m(''id'' \<mapsto> JStr v))
          = Inl (''id'', ''Invalid UUID format: '' @ v, ''value_error''))"
proof -
  have 1: "validate_uuid v = Inr v
      \<longleftrightarrow> length (uuid_hex v) = 32 \<and> py_int (uuid_hex v) 16 \<noteq> None"
    by (rule validate_uuid_iff)
  have 2: "canonical_uuid v \<longrightarrow> validate_uuid v = Inr v"
    by (auto intro: canonical_accept)
  have 3: "length v = 32 \<and> list_all is_hex v \<longrightarrow> validate_uuid v = Inr v"
  proof
    assume a: "length v = 32 \<and> list_all is_hex v"
    then have h: "\<forall>c\<in>set v. is_hex c" by (simp add: list_all_iff)
    then have "filter (\<lambda>c. c \<noteq> CHR ''-'') v = v"
      by (auto simp: filter_id_conv dest: is_hex_props(5))
    with a h show "validate_uuid v = Inr v" by (intro uuid_accept) auto
  qed
  have 4: "validate_uuid v = Inr v \<or> validate_uuid v = Inl (''Invalid UUID format: '' @ v)"
    by (simp add: validate_uuid_def split: option.splits)
  have 5: "validate_uuid v \<noteq> Inr v \<longrightarrow>
        field_result (req ''uuid'' ''id'' (StrField validate_uuid)) (m(''id'' \<mapsto> JStr v))
          = Inl (''id'', ''Invalid UUID format: '' @ v, ''value_error'')"
  proof
    assume "validate_uuid v \<noteq> Inr v"
    with 4 have "validate_uuid v = Inl (''Invalid UUID format: '' @ v)" by simp
    then show "field_result (req ''uuid'' ''id'' (StrField validate_uuid)) (m(''id'' \<mapsto> JStr v))
          = Inl (''id'', ''Invalid UUID format: '' @ v, ''value_error'')"
      by (simp add: field_result_def field_input_def req_def validate_value_def
          class_validator_def)
  qed
  from 1 2 3 4 5 show ?thesis by (intro conjI)
qed

theorem uuid_validator_accepts_witness:
  "validate_uuid ''123e4567-E89B-12d3-a456-426614174000''
     = Inr ''123e4567-E89B-12d3-a456-426614174000''
   \<and> field_result (req ''uuid'' ''id'' (StrField validate_uuid))
        (map_of [(''id'', JStr ''not-a-uuid'')])
     = Inl (''id'', ''Invalid UUID format: not-a-uuid'', ''value_error'')"
proof -
  have c: "canonical_uuid ''123e4567-E89B-12d3-a456-426614174000''" by code_simp
  have n: "validate_uuid ''not-a-uuid'' \<noteq> Inr ''not-a-uuid''" by code_simp
  note t1 = uuid_validator_accepts [of "''123e4567-E89B-12d3-a456-426614174000''" Map.empty]
  note t2 = uuid_validator_accepts [of "''not-a-uuid''" Map.empty]
  from t1 c have 1: "validate_uuid ''123e4567-E89B-12d3-a456-426614174000''
     = Inr ''123e4567-E89B-12d3-a456-426614174000''" by blast
  from t2 n have "field_result (req ''uuid'' ''id'' (StrField validate_uuid))
        (Map.empty(''id'' \<mapsto> JStr ''not-a-uuid''))
     = Inl (''id'', ''Invalid UUID format: '' @ ''not-a-uuid'', ''value_error'')" by blast
  then have 2: "field_result (req ''uuid'' ''id'' (StrField validate_uuid))
        (map_of [(''id'', JStr ''not-a-uuid'')])
     = Inl (''id'', ''Invalid UUID format: not-a-uuid'', ''value_error'')" by simp
  from 1 2 show ?thesis by (intro conjI)
qed

text \<open>
  The claim as the specification states it has the validator reject every string that is
  not in canonical form, 32 hexadecimal digits without hyphens for one. The code accepts
  that string, and converts the vless object that carries it.
\<close>

theorem unhyphenated_uuid_counterexample:
  "\<not> canonical_uuid ''123e4567e89b12d3a456426614174000''
   \<and> validate_uuid ''123e4567e89b12d3a456426614174000''
       = Inr ''123e4567e89b12d3a456426614174000''
   \<and> convert_parsed
       (JObj [(''protocol'', JStr ''vless''), (''uuid'', JStr ''123e4567e89b12d3a456426614174000''),
              (''address'', JStr ''a.com''), (''port'', JInt 443)]) ''V2Ray Server''
       = Inr ''vless://123e4567e89b12d3a456426614174000@a.com:443?encryption=none&type=tcp#V2Ray%20Server''"
  by code_simp

section \<open>Worked examples\<close>

text \<open>
  The minimal objects of the five protocols other than vmess convert, each to a URI with the
  scheme of its protocol; and the messages \<^verbatim>\<open>convert\<close> raises for an invalid uuid, for a
  missing password and for a JSON text that is not an object.
\<close>

lemma minimal_objects_convert:
  "convert_parsed
     (JObj [(''protocol'', JStr ''vless''), (''id'', JStr ''123e4567-e89b-12d3-a456-426614174000''),
            (''address'', JStr ''a.com''), (''port'', JInt 443)]) ''V2Ray Server''
   = Inr ''vless://123e4567-e89b-12d3-a456-426614174000@a.com:443?encryption=none&type=tcp#V2Ray%20Server''"
  "convert_parsed
     (JObj [(''protocol'', JStr ''trojan''), (''password'', JStr ''secret''),
            (''address'', JStr ''a.com''), (''port'', JInt 443)]) ''V2Ray Server''
   = Inr ''trojan://secret@a.com:443?type=tcp&security=tls#V2Ray%20Server''"
  "convert_parsed
     (JObj [(''protocol'', JStr ''ss''), (''method'', JStr ''aes-256-gcm''),
            (''password'', JStr ''secret''), (''address'', JStr ''a.com''), (''port'', JInt 443)])
     ''V2Ray Server''
   = Inr ''ss://YWVzLTI1Ni1nY206c2VjcmV0@a.com:443#V2Ray%20Server''"
  "convert_parsed
     (JObj [(''protocol'', JStr ''hysteria''), (''authString'', JStr ''secret''),
            (''address'', JStr ''a.com''), (''port'', JInt 443)]) ''V2Ray Server''
   = Inr ''hysteria://secret@a.com:443?tls=1&alpn=h2#V2Ray%20Server''"
  "convert_parsed
     (JObj [(''protocol'', JStr ''hy2''), (''password'', JStr ''secret''),
            (''address'', JStr ''a.com''), (''port'', JInt 443)]) ''V2Ray Server''
   = Inr ''hy2://secret@a.com:443?tls=1&alpn=h3#V2Ray%20Server''"
  by code_simp+

lemma error_examples:
  "convert_parsed
     (JObj [(''protocol'', JStr ''vless''), (''uuid'', JStr ''not-a-uuid''),
            (''address'', JStr ''a.com''), (''port'', JInt 443)]) ''V2Ray Server''
   = Inl (ValueError (''Configuration validation error: 1 validation error for VLESSConfig'' @ nl
        @ ''id'' @ nl @ ''  Invalid UUID format: not-a-uuid (type=value_error)''))"
  "convert_parsed
     (JObj [(''protocol'', JStr ''trojan''), (''address'', JStr ''a.com''), (''port'', JInt 443)])
     ''V2Ray Server''
   = Inl (ValueError (''Configuration validation error: 1 validation error for TROJANConfig'' @ nl
        @ ''password'' @ nl @ ''  field required (type=value_error.missing)''))"
  "convert_parsed (JArr []) ''V2Ray Server''
   = Inl (AttributeError (sq @ ''list'' @ sq @ '' object has no attribute '' @ sq @ ''get'' @ sq))"
  by code_simp+

text \<open>The braces and the \<^verbatim>\<open>urn:uuid:\<close> prefix that \<^verbatim>\<open>uuid.UUID\<close> removes.\<close>

lemma uuid_other_spellings:
  "validate_uuid ''{123e4567-e89b-12d3-a456-426614174000}''
     = Inr ''{123e4567-e89b-12d3-a456-426614174000}''"
  "validate_uuid ''urn:uuid:123e4567-e89b-12d3-a456-426614174000''
     = Inr ''urn:uuid:123e4567-e89b-12d3-a456-426614174000''"
  by code_simp+

end
